theory Spec2Isabelle
  imports Main "HOL-Library.Word"
begin

section \<open>The xlink dispatcher: data model\<close>

text \<open>
  The dispatcher (xlink-dispatcher.c) serves a fixed table of links. Every structure of
  the C file is a record here, every enum a datatype. Pointers to events are addresses
  into an explicit store of event structs, because the queues hold the events by
  reference and the same event is written through several paths. Integers keep the width
  the C code gives them: \<open>uint32_t\<close> is a 32-bit word, \<open>size_t\<close> a 64-bit word.

  An event pointer given to a function is the address of an event, never NULL. Every
  function runs as one step from a state to a state: locks and the interleaving of the
  threads are not modelled. What the transport, the kernel and the multiplexer answer
  is a parameter of the function that asks them. Where a function dereferences a
  pointer that may be NULL, its result is an option and \<open>None\<close> is that fault.
\<close>

type_synonym u16 = "16 word"
type_synonym u32 = "32 word"
type_synonym size_t = "64 word"

text \<open>Addresses: of an event struct, of a payload buffer, of a kernel task, of a device.\<close>

type_synonym event_ptr = nat
type_synonym buf_ptr = "64 word"
type_synonym task_ptr = nat
type_synonym dev_ptr = nat

text \<open>
  A pointer to a kernel task as the dispatcher holds it: NULL, a task, or the error
  pointer \<open>ERR_PTR(e)\<close>, which is not NULL.
\<close>

datatype task_ref = Task_null | Task task_ptr | Task_err int

text \<open>\<open>enum dispatcher_state\<close>, in the order of the source.\<close>

datatype dispatcher_state =
    XLINK_DISPATCHER_INIT
  | XLINK_DISPATCHER_RUNNING
  | XLINK_DISPATCHER_STOPPED
  | XLINK_DISPATCHER_ERROR

text \<open>
  \<open>enum xlink_event_type\<close> is declared in xlink-defs.h, which is not among the sources.
  The constructors are the enumerators that the dispatcher names; every other enumerator
  is \<open>XLINK_OTHER_EVENT n\<close>. Distinct enumerators are distinct values, as in C.
\<close>

datatype xlink_event_type =
    XLINK_WRITE_REQ
  | XLINK_WRITE_VOLATILE_REQ
  | XLINK_WRITE_CONTROL_REQ
  | XLINK_PASSTHRU_WRITE_REQ
  | XLINK_PASSTHRU_VOLATILE_WRITE_REQ
  | XLINK_PASSTHRU_READ_REQ
  | XLINK_PASSTHRU_READ_TO_BUFFER_REQ
  | XLINK_OTHER_EVENT nat

text \<open>\<open>enum xlink_event_origin\<close> and \<open>enum xlink_error\<close>: the enumerators the file uses.\<close>

datatype xlink_event_origin = EVENT_TX | EVENT_RX

datatype xlink_error = X_LINK_SUCCESS | X_LINK_ERROR | X_LINK_CHAN_FULL

datatype memory_kind = XLINK_NORMAL_MEMORY | XLINK_CMA_MEMORY

text \<open>
  \<open>struct xlink_handle\<close>: only \<open>sw_device_id\<close> is read by the dispatcher. A handle pointer
  is an option of the struct it points to; \<open>None\<close> is the NULL pointer.
\<close>

record xlink_handle =
  sw_device_id :: u32

text \<open>
  \<open>struct xlink_event_header\<close> and \<open>struct xlink_event\<close> (xlink-defs.h, not among the
  sources): the fields are those the dispatcher reads and writes. \<open>header.size\<close> is
  passed by address as the in/out length of \<open>xlink_platform_write\<close>, exactly as the local
  \<open>size_t event_header_size\<close> is, so it is a \<open>size_t\<close>. The fields \<open>id\<close>, \<open>type\<close> and
  \<open>size\<close> are written \<open>h_id\<close>, \<open>h_type\<close> and \<open>h_size\<close>.
\<close>

record xlink_event_header =
  magic :: u32
  h_id :: u32
  h_type :: xlink_event_type
  chan :: u16
  h_size :: size_t
  timeout :: u32

record xlink_event =
  header :: xlink_event_header
  origin :: xlink_event_origin
  link_id :: u32
  handle :: "xlink_handle option"
  interface :: int
  data :: buf_ptr
  paddr :: "64 word"
  user_data :: u32

text \<open>
  \<open>struct event_queue\<close>: \<open>head\<close> is the kernel list of the queue, first element first. The
  mutex of the queue is not modelled: each operation runs as one step.
\<close>

record event_queue =
  count :: u32
  capacity :: u32
  head :: "event_ptr list"

text \<open>
  \<open>struct dispatcher\<close>. The fields \<open>link_id\<close>, \<open>handle\<close> and \<open>interface\<close> are written
  \<open>d_link_id\<close>, \<open>d_handle\<close> and \<open>d_interface\<close>. \<open>event_sem\<close> is the count of the
  semaphore; \<open>rx_done\<close> and \<open>tx_done\<close> are the counters of the two completions, the
  signals given and not yet taken. Mutexes are not modelled.
\<close>

record dispatcher =
  d_link_id :: u32
  state :: dispatcher_state
  d_handle :: "xlink_handle option"
  d_interface :: int
  rxthread :: task_ref
  txthread :: task_ref
  queue :: event_queue
  buff_queue :: event_queue
  event_sem :: nat
  rx_done :: nat
  tx_done :: nat

text \<open>
  \<open>struct xlink_dispatcher\<close>: the array \<open>dispatchers\<close> has \<open>XLINK_MAX_CONNECTIONS\<close>
  slots (a constant of xlink-defs.h), so that constant is the length of the list.
\<close>

record xlink_dispatcher =
  dispatchers :: "dispatcher list"
  dev :: dev_ptr

definition XLINK_MAX_CONNECTIONS :: "xlink_dispatcher \<Rightarrow> nat" where
  "XLINK_MAX_CONNECTIONS xd = length (dispatchers xd)"

text \<open>
  Calls that leave the dispatcher, in the order they are made: the transport write with
  its buffer, requested length and timeout, the release of a payload buffer, and the stop
  of a kernel thread.
\<close>

datatype write_buf = Header_buf event_ptr | Data_buf buf_ptr

datatype platform_call =
    Platform_write int u32 write_buf size_t u32
  | Platform_deallocate dev_ptr buf_ptr "64 word" size_t u32 memory_kind
  | Kthread_stop task_ref

text \<open>
  The state of the module: the global \<open>xlinkd\<close> (\<open>None\<close> is NULL), the global \<open>ipc_disp\<close>,
  the store of event structs, the two function-local statics (\<open>id\<close> of
  \<open>event_generate_id\<close>, \<open>error_printed\<close> of \<open>dispatcher_event_send\<close>) and the calls made
  so far.
\<close>

record xlink_sys =
  xlinkd :: "xlink_dispatcher option"
  ipc_disp :: dispatcher
  events :: "event_ptr \<Rightarrow> xlink_event"
  next_event_id :: u32
  error_printed :: bool
  calls :: "platform_call list"

text \<open>
  Constants and functions of xlink-defs.h and xlink-platform.h that the dispatcher uses
  and that are not among the sources are parameters of the model.
  \<open>event_type_zero\<close> is the enumerator of \<open>enum xlink_event_type\<close> with value 0, which
  the RX thread passes as a literal.
\<close>

record xlink_defs =
  XLINK_EVENT_HEADER_MAGIC :: u32
  XLINK_INVALID_EVENT_ID :: u32
  XLINK_MAX_CONTROL_DATA_PCIE_SIZE :: size_t
  sizeof_header :: size_t
  XLINK_PACKET_ALIGNMENT :: u32
  event_type_zero :: xlink_event_type
  get_interface_from_sw_device_id :: "u32 \<Rightarrow> int"
  CONFIG_XLINK_LOCAL_HOST :: bool

section \<open>Queues\<close>

text \<open>
  \<open>event_dequeue_buffer\<close> and \<open>event_dequeue\<close>: the first event of the list is unlinked
  and the count decremented; on an empty list the result is NULL and nothing changes.
\<close>

definition event_dequeue_buffer :: "event_queue \<Rightarrow> event_ptr option \<times> event_queue" where
  "event_dequeue_buffer q =
     (case head q of
        [] \<Rightarrow> (None, q)
      | event # rest \<Rightarrow> (Some event, q\<lparr>head := rest, count := count q - 1\<rparr>))"

definition event_dequeue :: "event_queue \<Rightarrow> event_ptr option \<times> event_queue" where
  "event_dequeue q =
     (case head q of
        [] \<Rightarrow> (None, q)
      | event # rest \<Rightarrow> (Some event, q\<lparr>head := rest, count := count q - 1\<rparr>))"

text \<open>\<open>event_enqueue_buffer\<close>: unconditional append at the tail; the result is 0.\<close>

definition event_enqueue_buffer :: "event_queue \<Rightarrow> event_ptr \<Rightarrow> int \<times> event_queue" where
  "event_enqueue_buffer q event = (0, q\<lparr>head := head q @ [event], count := count q + 1\<rparr>)"

text \<open>
  \<open>event_enqueue\<close> (only with \<open>CONFIG_XLINK_LOCAL_HOST\<close>): the append happens when
  \<open>count < (capacity / 10) * 7\<close> in \<open>uint32_t\<close> arithmetic; otherwise the result is -1.
\<close>

definition event_enqueue :: "event_queue \<Rightarrow> event_ptr \<Rightarrow> int \<times> event_queue" where
  "event_enqueue q event =
     (if count q < (capacity q div 10) * 7
      then (0, q\<lparr>head := head q @ [event], count := count q + 1\<rparr>)
      else (-1, q))"

text \<open>\<open>event_generate_id\<close>: returns the static counter and increments it (it wraps).\<close>

definition event_generate_id :: "xlink_sys \<Rightarrow> u32 \<times> xlink_sys" where
  "event_generate_id s = (next_event_id s, s\<lparr>next_event_id := next_event_id s + 1\<rparr>)"

section \<open>The registry and the buffer pools\<close>

text \<open>
  \<open>get_dispatcher_by_id\<close>: NULL without a registry or for an id beyond the table, else the
  address of slot \<open>id\<close>. The result is the struct in that slot; a write through the
  pointer is \<open>upd_dispatcher\<close> at the same id.
\<close>

definition get_dispatcher_by_id :: "xlink_sys \<Rightarrow> u32 \<Rightarrow> dispatcher option" where
  "get_dispatcher_by_id s i =
     (case xlinkd s of
        None \<Rightarrow> None
      | Some xd \<Rightarrow>
          if unat i \<ge> XLINK_MAX_CONNECTIONS xd then None
          else Some (dispatchers xd ! unat i))"

definition upd_dispatcher :: "u32 \<Rightarrow> (dispatcher \<Rightarrow> dispatcher) \<Rightarrow> xlink_sys \<Rightarrow> xlink_sys" where
  "upd_dispatcher i f s =
     (case xlinkd s of
        None \<Rightarrow> s
      | Some xd \<Rightarrow>
          s\<lparr>xlinkd := Some (xd\<lparr>dispatchers :=
                (dispatchers xd)[unat i := f (dispatchers xd ! unat i)]\<rparr>)\<rparr>)"

text \<open>A write through an event pointer.\<close>

definition upd_event :: "event_ptr \<Rightarrow> (xlink_event \<Rightarrow> xlink_event) \<Rightarrow> xlink_sys \<Rightarrow> xlink_sys" where
  "upd_event p f s = s\<lparr>events := (events s)(p := f (events s p))\<rparr>"

text \<open>\<open>alloc_event\<close>: pops the buffer pool of the link; NULL for an unknown link or an empty pool.\<close>

definition alloc_event :: "u32 \<Rightarrow> xlink_sys \<Rightarrow> event_ptr option \<times> xlink_sys" where
  "alloc_event lid s =
     (case get_dispatcher_by_id s lid of
        None \<Rightarrow> (None, s)
      | Some disp \<Rightarrow>
          (case event_dequeue_buffer (buff_queue disp) of
             (new_event, q) \<Rightarrow> (new_event, upd_dispatcher lid (\<lambda>d. d\<lparr>buff_queue := q\<rparr>) s)))"

text \<open>
  \<open>free_event\<close>: pushes the event on the buffer pool of the link named by
  \<open>event->link_id\<close>; returns at once when that link has no dispatcher. The function is
  \<open>void\<close>, and the result of \<open>event_enqueue_buffer\<close> is dropped.
\<close>

definition free_event :: "event_ptr \<Rightarrow> xlink_sys \<Rightarrow> xlink_sys" where
  "free_event event s =
     (case get_dispatcher_by_id s (link_id (events s event)) of
        None \<Rightarrow> s
      | Some disp \<Rightarrow>
          upd_dispatcher (link_id (events s event))
            (\<lambda>d. d\<lparr>buff_queue := snd (event_enqueue_buffer (buff_queue disp) event)\<rparr>) s)"

definition xlink_destroy_event :: "event_ptr \<Rightarrow> xlink_sys \<Rightarrow> xlink_sys" where
  "xlink_destroy_event event s = free_event event s"

text \<open>
  \<open>xlink_create_event\<close>. The outer option is \<open>None\<close> when the function dereferences a NULL
  \<open>handle\<close>; the inner one is the returned pointer. The \<open>uint32_t\<close> size widens to the
  \<open>size_t\<close> field.
\<close>

definition xlink_create_event ::
  "xlink_defs \<Rightarrow> u32 \<Rightarrow> xlink_event_type \<Rightarrow> xlink_handle option \<Rightarrow> u16 \<Rightarrow> u32 \<Rightarrow> u32
     \<Rightarrow> xlink_sys \<Rightarrow> (event_ptr option \<times> xlink_sys) option" where
  "xlink_create_event defs lid ty hdl ch sz tmo s =
     (case alloc_event lid s of
        (None, s1) \<Rightarrow> Some (None, s1)
      | (Some new_event, s1) \<Rightarrow>
          (case hdl of
             None \<Rightarrow> None
           | Some h \<Rightarrow>
               Some (Some new_event,
                 upd_event new_event
                   (\<lambda>e. e\<lparr>link_id := lid,
                          handle := hdl,
                          interface := get_interface_from_sw_device_id defs (sw_device_id h),
                          user_data := 0,
                          header := (header e)\<lparr>magic := XLINK_EVENT_HEADER_MAGIC defs,
                                                 h_id := XLINK_INVALID_EVENT_ID defs,
                                                 h_type := ty,
                                                 chan := ch,
                                                 h_size := ucast sz,
                                                 timeout := tmo\<rparr>\<rparr>) s1)))"

definition is_valid_event_header :: "xlink_defs \<Rightarrow> xlink_event \<Rightarrow> int" where
  "is_valid_event_header defs event =
     (if magic (header event) \<noteq> XLINK_EVENT_HEADER_MAGIC defs then 0 else 1)"

section \<open>Sending an event\<close>

text \<open>
  What one call of \<open>xlink_platform_write\<close> gives back: its status and the length it
  stores through the size pointer.
\<close>

record write_result =
  w_rc :: int
  w_size :: size_t

definition log_call :: "platform_call \<Rightarrow> xlink_sys \<Rightarrow> xlink_sys" where
  "log_call c s = s\<lparr>calls := calls s @ [c]\<rparr>"

definition is_write_variant :: "xlink_event_type \<Rightarrow> bool" where
  "is_write_variant ty =
     (ty = XLINK_WRITE_REQ \<or> ty = XLINK_WRITE_VOLATILE_REQ \<or>
      ty = XLINK_PASSTHRU_VOLATILE_WRITE_REQ \<or> ty = XLINK_PASSTHRU_WRITE_REQ)"

text \<open>
  The length of the header transfer: the header without its control-data region, plus
  \<open>header.size\<close> when the type is \<open>XLINK_WRITE_CONTROL_REQ\<close> (\<open>size_t\<close> arithmetic).
\<close>

definition event_header_size :: "xlink_defs \<Rightarrow> xlink_event \<Rightarrow> size_t" where
  "event_header_size defs ev =
     (if h_type (header ev) = XLINK_WRITE_CONTROL_REQ
      then sizeof_header defs - XLINK_MAX_CONTROL_DATA_PCIE_SIZE defs + h_size (header ev)
      else sizeof_header defs - XLINK_MAX_CONTROL_DATA_PCIE_SIZE defs)"

text \<open>
  \<open>dispatcher_event_send\<close>, with the results \<open>hw\<close> of the header write and \<open>dw\<close> of the
  data write as the transport gives them. \<open>None\<close> is a dereference of NULL
  (\<open>event->handle\<close>, or \<open>xlinkd\<close> at the release). The data write has
  \<open>&event->header.size\<close> as its in/out length, so the field holds the written length
  afterwards. Tracing and \<open>pr_err\<close> are not modelled.
\<close>

definition dispatcher_event_send ::
  "xlink_defs \<Rightarrow> write_result \<Rightarrow> write_result \<Rightarrow> event_ptr \<Rightarrow> xlink_sys
     \<Rightarrow> (int \<times> xlink_sys) option" where
  "dispatcher_event_send defs hw dw event s =
     (case handle (events s event) of
        None \<Rightarrow> None
      | Some h \<Rightarrow>
          let ev = events s event;
              transfer_size = event_header_size defs ev;
              s1 = log_call (Platform_write (interface ev) (sw_device_id h) (Header_buf event)
                     transfer_size (timeout (header ev))) s
          in
          if w_rc hw \<noteq> 0 \<or> w_size hw \<noteq> transfer_size
          then Some (w_rc hw, s1\<lparr>error_printed := True\<rparr>)
          else if is_write_variant (h_type (header ev))
          then
            let s2 = log_call (Platform_write (interface ev) (sw_device_id h) (Data_buf (data ev))
                       (h_size (header ev)) (timeout (header ev))) (s1\<lparr>error_printed := False\<rparr>);
                s3 = upd_event event (\<lambda>e. e\<lparr>header := (header e)\<lparr>h_size := w_size dw\<rparr>\<rparr>) s2
            in
            if user_data ev = 1
            then (case xlinkd s3 of
                    None \<Rightarrow> None
                  | Some xd \<Rightarrow>
                      Some (w_rc dw,
                        log_call (Platform_deallocate (dev xd) (data ev) (paddr ev) (w_size dw)
                          (XLINK_PACKET_ALIGNMENT defs)
                          (if paddr ev \<noteq> 0 then XLINK_CMA_MEMORY else XLINK_NORMAL_MEMORY)) s3))
            else Some (w_rc dw, s3)
          else Some (w_rc hw, s1))"

text \<open>
  The step of \<open>xlink_dispatcher_event_add\<close> that its comment calls configuring the event:
  a TX event gets the next generated id, and every event its origin.
\<close>

definition configure_event :: "xlink_event_origin \<Rightarrow> event_ptr \<Rightarrow> xlink_sys \<Rightarrow> xlink_sys" where
  "configure_event orig event s =
     upd_event event (\<lambda>e. e\<lparr>origin := orig\<rparr>)
       (if orig = EVENT_TX
        then (case event_generate_id s of
                (new_id, s') \<Rightarrow>
                  upd_event event (\<lambda>e. e\<lparr>header := (header e)\<lparr>h_id := new_id\<rparr>\<rparr>) s')
        else s)"

text \<open>
  \<open>xlink_dispatcher_event_add\<close>. The result of \<open>dispatcher_event_send\<close> is not looked at.
  The per-link mutex around send and destroy is not modelled.
\<close>

definition xlink_dispatcher_event_add ::
  "xlink_defs \<Rightarrow> write_result \<Rightarrow> write_result \<Rightarrow> xlink_event_origin \<Rightarrow> event_ptr \<Rightarrow> xlink_sys
     \<Rightarrow> (xlink_error \<times> xlink_sys) option" where
  "xlink_dispatcher_event_add defs hw dw orig event s =
     (case get_dispatcher_by_id s (link_id (events s event)) of
        None \<Rightarrow> Some (X_LINK_ERROR, s)
      | Some disp \<Rightarrow>
          if state disp \<noteq> XLINK_DISPATCHER_RUNNING then Some (X_LINK_ERROR, s)
          else
            (case dispatcher_event_send defs hw dw event (configure_event orig event s) of
               None \<Rightarrow> None
             | Some (rc, s3) \<Rightarrow> Some (X_LINK_SUCCESS, xlink_destroy_event event s3)))"

text \<open>
  \<open>xlink_dispatcher_ipc_passthru_event_add\<close> with \<open>CONFIG_XLINK_LOCAL_HOST\<close>: the
  admission-controlled push on the queue of \<open>ipc_disp\<close>, then \<open>up\<close> on its semaphore.
  Without the option the function returns success and does nothing.
\<close>

definition xlink_dispatcher_ipc_passthru_event_add ::
  "xlink_defs \<Rightarrow> event_ptr \<Rightarrow> xlink_sys \<Rightarrow> xlink_error \<times> xlink_sys" where
  "xlink_dispatcher_ipc_passthru_event_add defs event s =
     (if \<not> CONFIG_XLINK_LOCAL_HOST defs then (X_LINK_SUCCESS, s)
      else if state (ipc_disp s) \<noteq> XLINK_DISPATCHER_RUNNING then (X_LINK_ERROR, s)
      else
        (case event_enqueue (queue (ipc_disp s)) event of
           (rc, q) \<Rightarrow>
             if rc \<noteq> 0 then (X_LINK_ERROR, s\<lparr>ipc_disp := (ipc_disp s)\<lparr>queue := q\<rparr>\<rparr>)
             else (X_LINK_SUCCESS,
                   s\<lparr>ipc_disp := (ipc_disp s)\<lparr>queue := q,
                                               event_sem := Suc (event_sem (ipc_disp s))\<rparr>\<rparr>)))"

section \<open>The RX thread\<close>

text \<open>
  What one call of \<open>xlink_platform_read\<close> on \<open>&event->header\<close> gives back: its status,
  the length it stores through the size pointer, and the header the buffer holds after
  the call.
\<close>

record read_result =
  r_rc :: int
  r_size :: size_t
  r_header :: xlink_event_header

text \<open>
  The loop compares the \<open>size_t\<close> length with \<open>(int)(sizeof(event->header) -
  XLINK_MAX_CONTROL_DATA_PCIE_SIZE)\<close>: the cast keeps the low 32 bits, and the comparison
  widens the \<open>int\<close> back to \<open>size_t\<close> with its sign.
\<close>

definition rx_expected_size :: "xlink_defs \<Rightarrow> size_t" where
  "rx_expected_size defs =
     scast (ucast (sizeof_header defs - XLINK_MAX_CONTROL_DATA_PCIE_SIZE defs) :: 32 word)"

text \<open>
  What one pass through the loop body did: the event handed to \<open>xlink_multiplexer_rx\<close>
  (pointer and struct at the call) if any, whether \<open>xlink_create_event\<close> was called, and
  the event the thread holds for the next read (\<open>None\<close>: the thread returned -1).
\<close>

record rx_result =
  rx_handoff :: "(event_ptr \<times> xlink_event) option"
  rx_created :: bool
  rx_event :: "event_ptr option"

text \<open>
  One pass through the body of the \<open>while\<close> loop of \<open>xlink_dispatcher_rxthread\<close>. \<open>d\<close> is
  the slot of the dispatcher the thread serves (its \<open>context\<close> pointer), \<open>rd\<close> the result
  of the read, \<open>mux\<close> the multiplexer \<open>xlink_multiplexer_rx\<close>, which returns a status and
  may change the state. The outer \<open>None\<close> is a dereference of NULL (\<open>disp->handle\<close>).
\<close>

definition rxthread_iteration ::
  "xlink_defs \<Rightarrow> read_result \<Rightarrow> (event_ptr \<Rightarrow> xlink_sys \<Rightarrow> int \<times> xlink_sys) \<Rightarrow> u32
     \<Rightarrow> event_ptr \<Rightarrow> xlink_sys \<Rightarrow> (rx_result \<times> xlink_sys) option" where
  "rxthread_iteration defs rd mux d event s =
     (case get_dispatcher_by_id s d of
        None \<Rightarrow> None
      | Some disp \<Rightarrow>
          (case d_handle disp of
             None \<Rightarrow> None
           | Some h \<Rightarrow>
               let s1 = upd_event event (\<lambda>e. e\<lparr>header := r_header rd\<rparr>) s in
               if r_rc rd \<noteq> 0 \<or> r_size rd \<noteq> rx_expected_size defs
               then Some (\<lparr>rx_handoff = None, rx_created = False, rx_event = Some event\<rparr>, s1)
               else if is_valid_event_header defs (events s1 event) \<noteq> 0
               then
                 let s2 = upd_event event (\<lambda>e. e\<lparr>link_id := d_link_id disp\<rparr>) s1;
                     handed = (event, events s2 event)
                 in
                 (case mux event s2 of
                    (rc, s3) \<Rightarrow>
                      if rc = 0
                      then
                        (case get_dispatcher_by_id s3 d of
                           None \<Rightarrow> None
                         | Some disp' \<Rightarrow>
                             (case xlink_create_event defs (d_link_id disp') (event_type_zero defs)
                                     (d_handle disp') 0 0 0 s3 of
                                None \<Rightarrow> None
                              | Some (new_event, s4) \<Rightarrow>
                                  Some (\<lparr>rx_handoff = Some handed, rx_created = True,
                                         rx_event = new_event\<rparr>, s4)))
                      else Some (\<lparr>rx_handoff = Some handed, rx_created = False,
                                  rx_event = Some event\<rparr>, s3))
               else Some (\<lparr>rx_handoff = None, rx_created = False, rx_event = Some event\<rparr>, s1)))"

text \<open>
  \<open>complete\<close> on the two completions of a dispatcher.
\<close>

definition complete_rx_done :: "u32 \<Rightarrow> xlink_sys \<Rightarrow> xlink_sys" where
  "complete_rx_done d s = upd_dispatcher d (\<lambda>disp. disp\<lparr>rx_done := Suc (rx_done disp)\<rparr>) s"

definition complete_tx_done :: "u32 \<Rightarrow> xlink_sys \<Rightarrow> xlink_sys" where
  "complete_tx_done d s = upd_dispatcher d (\<lambda>disp. disp\<lparr>tx_done := Suc (tx_done disp)\<rparr>) s"

text \<open>
  \<open>xlink_dispatcher_rxthread\<close> up to its loop: it takes an event from the pool and
  returns -1 without a signal when there is none (the result \<open>None\<close> in the pair);
  otherwise it signals \<open>rx_done\<close>. The outer \<open>None\<close> is a dereference of NULL.
\<close>

definition rxthread_begin ::
  "xlink_defs \<Rightarrow> u32 \<Rightarrow> xlink_sys \<Rightarrow> (event_ptr option \<times> xlink_sys) option" where
  "rxthread_begin defs d s =
     (case get_dispatcher_by_id s d of
        None \<Rightarrow> None
      | Some disp \<Rightarrow>
          (case xlink_create_event defs (d_link_id disp) (event_type_zero defs) (d_handle disp)
                  0 0 0 s of
             None \<Rightarrow> None
           | Some (None, s1) \<Rightarrow> Some (None, s1)
           | Some (Some event, s1) \<Rightarrow> Some (Some event, complete_rx_done d s1)))"

text \<open>
  The loop: one read result per pass; the list ends where \<open>kthread_should_stop\<close> turns
  true, and the thread then signals \<open>rx_done\<close> and leaves with 0. A failed replacement
  ends it with -1 and no signal.
\<close>

fun rxthread_loop ::
  "xlink_defs \<Rightarrow> (event_ptr \<Rightarrow> xlink_sys \<Rightarrow> int \<times> xlink_sys) \<Rightarrow> u32 \<Rightarrow> read_result list
     \<Rightarrow> event_ptr \<Rightarrow> xlink_sys \<Rightarrow> (int \<times> xlink_sys) option" where
  "rxthread_loop defs mux d [] event s = Some (0, complete_rx_done d s)"
| "rxthread_loop defs mux d (rd # rds) event s =
     (case rxthread_iteration defs rd mux d event s of
        None \<Rightarrow> None
      | Some (r, s') \<Rightarrow>
          (case rx_event r of
             None \<Rightarrow> Some (-1, s')
           | Some event' \<Rightarrow> rxthread_loop defs mux d rds event' s'))"

definition xlink_dispatcher_rxthread ::
  "xlink_defs \<Rightarrow> (event_ptr \<Rightarrow> xlink_sys \<Rightarrow> int \<times> xlink_sys) \<Rightarrow> u32 \<Rightarrow> read_result list
     \<Rightarrow> xlink_sys \<Rightarrow> (int \<times> xlink_sys) option" where
  "xlink_dispatcher_rxthread defs mux d rds s =
     (case rxthread_begin defs d s of
        None \<Rightarrow> None
      | Some (None, s1) \<Rightarrow> Some (-1, s1)
      | Some (Some event, s1) \<Rightarrow> rxthread_loop defs mux d rds event s1)"

text \<open>
  \<open>xlink_dispatcher_txthread\<close> and \<open>xlink_dispatcher_ipc_passthru_rxthread\<close> up to their
  loops: each signals its completion at once.
\<close>

definition txthread_begin :: "u32 \<Rightarrow> xlink_sys \<Rightarrow> xlink_sys" where
  "txthread_begin d s = complete_tx_done d s"

definition ipc_passthru_rxthread_begin :: "xlink_sys \<Rightarrow> xlink_sys" where
  "ipc_passthru_rxthread_begin s =
     s\<lparr>ipc_disp := (ipc_disp s)\<lparr>rx_done := Suc (rx_done (ipc_disp s))\<rparr>\<rparr>"

section \<open>Starting a dispatcher\<close>

text \<open>
  How a call ends: it returns a value, it dereferences NULL, or it waits on a completion
  that no thread signals and does not return.
\<close>

datatype 'a outcome = Returns 'a | Faults | Blocks

fun returned :: "'a outcome \<Rightarrow> 'a option" where
  "returned (Returns x) = Some x"
| "returned Faults = None"
| "returned Blocks = None"

text \<open>
  What \<open>kthread_run\<close> gives: the new task, or on failure an error pointer
  \<open>ERR_PTR(e)\<close>. It does not give NULL. \<open>task_of\<close> is the pointer the caller stores.
\<close>

datatype kthread_run_result = Spawned task_ptr | Spawn_failed int

fun task_of :: "kthread_run_result \<Rightarrow> task_ref" where
  "task_of (Spawned t) = Task t"
| "task_of (Spawn_failed e) = Task_err e"

text \<open>The results of the three \<open>kthread_run\<close> calls of \<open>xlink_dispatcher_start\<close>.\<close>

record kthread_results =
  tx_run :: kthread_run_result
  rx_run :: kthread_run_result
  ipc_run :: kthread_run_result

text \<open>
  The effect of a \<open>kthread_run\<close> on the state: a new thread runs up to its loop (or to
  its early return) while the caller waits for it; with an error pointer there is no
  thread and nothing happens. What the threads do in their loops, beside the caller, is
  not part of the call.
\<close>

definition kthread_run_txthread :: "kthread_run_result \<Rightarrow> u32 \<Rightarrow> xlink_sys \<Rightarrow> xlink_sys" where
  "kthread_run_txthread r i s =
     (case r of Spawned t \<Rightarrow> txthread_begin i s | Spawn_failed e \<Rightarrow> s)"

definition kthread_run_rxthread ::
  "xlink_defs \<Rightarrow> kthread_run_result \<Rightarrow> u32 \<Rightarrow> xlink_sys \<Rightarrow> xlink_sys option" where
  "kthread_run_rxthread defs r i s =
     (case r of
        Spawned t \<Rightarrow> map_option snd (rxthread_begin defs i s)
      | Spawn_failed e \<Rightarrow> Some s)"

definition kthread_run_ipcthread :: "kthread_run_result \<Rightarrow> xlink_sys \<Rightarrow> xlink_sys" where
  "kthread_run_ipcthread r s =
     (case r of Spawned t \<Rightarrow> ipc_passthru_rxthread_begin s | Spawn_failed e \<Rightarrow> s)"

text \<open>
  \<open>wait_for_completion\<close> on \<open>tx_done\<close> and on \<open>rx_done\<close> of the dispatcher in slot \<open>i\<close>:
  with the counter at 0 the caller waits for a signal that does not come; otherwise it
  takes one signal and goes on.
\<close>

definition wait_tx_done :: "u32 \<Rightarrow> xlink_sys \<Rightarrow> xlink_sys outcome" where
  "wait_tx_done i s =
     (case get_dispatcher_by_id s i of
        None \<Rightarrow> Faults
      | Some disp \<Rightarrow>
          if tx_done disp = 0 then Blocks
          else Returns (upd_dispatcher i (\<lambda>d. d\<lparr>tx_done := tx_done d - 1\<rparr>) s))"

definition wait_rx_done :: "u32 \<Rightarrow> xlink_sys \<Rightarrow> xlink_sys outcome" where
  "wait_rx_done i s =
     (case get_dispatcher_by_id s i of
        None \<Rightarrow> Faults
      | Some disp \<Rightarrow>
          if rx_done disp = 0 then Blocks
          else Returns (upd_dispatcher i (\<lambda>d. d\<lparr>rx_done := rx_done d - 1\<rparr>) s))"

text \<open>
  The exit labels \<open>r_txthread\<close> and \<open>r_rxthread\<close> (which falls through to the former);
  \<open>tx\<close> is the pointer in \<open>disp->txthread\<close>.
\<close>

definition r_txthread :: "u32 \<Rightarrow> xlink_sys \<Rightarrow> xlink_sys" where
  "r_txthread i s = upd_dispatcher i (\<lambda>d. d\<lparr>state := XLINK_DISPATCHER_STOPPED\<rparr>) s"

definition r_rxthread :: "u32 \<Rightarrow> task_ref \<Rightarrow> xlink_sys \<Rightarrow> xlink_sys" where
  "r_rxthread i tx s = r_txthread i (log_call (Kthread_stop tx) s)"

text \<open>
  The block of \<open>xlink_dispatcher_start\<close> under \<open>CONFIG_XLINK_LOCAL_HOST\<close>, which starts
  the thread of \<open>ipc_disp\<close> unless that dispatcher is \<open>RUNNING\<close>; \<open>lid\<close> is
  \<open>disp->link_id\<close> and \<open>tx\<close> the pointer in \<open>disp->txthread\<close>.
\<close>

definition start_ipc_disp ::
  "xlink_defs \<Rightarrow> kthread_results \<Rightarrow> u32 \<Rightarrow> u32 \<Rightarrow> task_ref \<Rightarrow> xlink_sys
     \<Rightarrow> (xlink_error \<times> xlink_sys) outcome" where
  "start_ipc_disp defs kt i lid tx s =
     (if CONFIG_XLINK_LOCAL_HOST defs \<and> state (ipc_disp s) \<noteq> XLINK_DISPATCHER_RUNNING
      then
        let s1 = kthread_run_ipcthread (ipc_run kt)
                   (s\<lparr>ipc_disp := (ipc_disp s)\<lparr>d_link_id := lid,
                                               rxthread := task_of (ipc_run kt)\<rparr>\<rparr>)
        in
        if task_of (ipc_run kt) = Task_null then Returns (X_LINK_ERROR, r_rxthread i tx s1)
        else
          let s2 = s1\<lparr>ipc_disp := (ipc_disp s1)\<lparr>state := XLINK_DISPATCHER_RUNNING\<rparr>\<rparr> in
          if rx_done (ipc_disp s2) = 0 then Blocks
          else Returns (X_LINK_SUCCESS,
                        s2\<lparr>ipc_disp := (ipc_disp s2)\<lparr>rx_done := rx_done (ipc_disp s2) - 1\<rparr>\<rparr>)
      else Returns (X_LINK_SUCCESS, s))"

text \<open>
  \<open>xlink_dispatcher_start\<close>. The \<open>int\<close> id is the 32-bit word of its two's complement
  bits, which is what the conversion to the \<open>u32\<close> parameter of \<open>get_dispatcher_by_id\<close>
  keeps. \<open>Faults\<close> is a dereference of NULL: \<open>xlinkd\<close> at the first \<open>mutex_lock\<close>, or
  \<open>handle\<close>. The two tests on the thread pointers are tests for NULL, as in the source;
  an error pointer passes them, and the call goes on to wait for the thread.
\<close>

definition xlink_dispatcher_start ::
  "xlink_defs \<Rightarrow> kthread_results \<Rightarrow> 32 word \<Rightarrow> xlink_handle option \<Rightarrow> xlink_sys
     \<Rightarrow> (xlink_error \<times> xlink_sys) outcome" where
  "xlink_dispatcher_start defs kt i hdl s =
     (case xlinkd s of
        None \<Rightarrow> Faults
      | Some xd \<Rightarrow>
          (case get_dispatcher_by_id s i of
             None \<Rightarrow> Returns (X_LINK_ERROR, s)
           | Some disp \<Rightarrow>
               if state disp = XLINK_DISPATCHER_RUNNING \<or> state disp = XLINK_DISPATCHER_ERROR
               then Returns (X_LINK_ERROR, s)
               else
                 (case hdl of
                    None \<Rightarrow> Faults
                  | Some h \<Rightarrow>
                      let s1 = kthread_run_txthread (tx_run kt) i
                                 (upd_dispatcher i
                                    (\<lambda>d. d\<lparr>d_handle := hdl,
                                           d_interface :=
                                             get_interface_from_sw_device_id defs (sw_device_id h),
                                           txthread := task_of (tx_run kt)\<rparr>) s)
                      in
                      if task_of (tx_run kt) = Task_null
                      then Returns (X_LINK_ERROR, r_txthread i s1)
                      else
                        (case wait_tx_done i s1 of
                           Faults \<Rightarrow> Faults
                         | Blocks \<Rightarrow> Blocks
                         | Returns s2 \<Rightarrow>
                             (case kthread_run_rxthread defs (rx_run kt) i
                                     (upd_dispatcher i
                                        (\<lambda>d. d\<lparr>state := XLINK_DISPATCHER_RUNNING,
                                               rxthread := task_of (rx_run kt)\<rparr>) s2) of
                                None \<Rightarrow> Faults
                              | Some s3 \<Rightarrow>
                                  if task_of (rx_run kt) = Task_null
                                  then Returns (X_LINK_ERROR,
                                                r_rxthread i (task_of (tx_run kt)) s3)
                                  else
                                    (case wait_rx_done i s3 of
                                       Faults \<Rightarrow> Faults
                                     | Blocks \<Rightarrow> Blocks
                                     | Returns s4 \<Rightarrow>
                                         start_ipc_disp defs kt i (d_link_id disp)
                                           (task_of (tx_run kt)) s4))))))"

section \<open>Invariants and sample values\<close>

text \<open>
  The counter of a queue against its list: \<open>queue_inv\<close> compares them as the \<open>uint32_t\<close>
  the counter is, \<open>queue_exact\<close> as numbers.
\<close>

definition queue_inv :: "event_queue \<Rightarrow> bool" where
  "queue_inv q = (count q = of_nat (length (head q)))"

definition queue_exact :: "event_queue \<Rightarrow> bool" where
  "queue_exact q = (unat (count q) = length (head q))"

text \<open>A queue of capacity 1024 that holds the given events.\<close>

definition sample_queue :: "event_ptr list \<Rightarrow> event_queue" where
  "sample_queue es = \<lparr>count = of_nat (length es), capacity = 1024, head = es\<rparr>"

text \<open>A queue of capacity 100, and one whose capacity is not a multiple of ten.\<close>

definition capacity_100_queue :: "event_ptr list \<Rightarrow> event_queue" where
  "capacity_100_queue es = \<lparr>count = of_nat (length es), capacity = 100, head = es\<rparr>"

definition odd_capacity_queue :: event_queue where
  "odd_capacity_queue = \<lparr>count = 8, capacity = 15, head = [1, 2, 3, 4, 5, 6, 7, 8]\<rparr>"

text \<open>
  Sample values for the constants that are not among the sources, a handle, and a state
  with two links: link 0 in a given state with events 1 and 2 in its pool, link 1 fresh
  with event 3 in its pool. Event 10 is a write of 4 bytes on link 0 whose payload the
  dispatcher owns; event 11 names link 5, which has no dispatcher; events 12 and 13 are
  like event 10 with the types \<open>XLINK_WRITE_CONTROL_REQ\<close> and \<open>XLINK_PASSTHRU_READ_REQ\<close>;
  the pooled events hold what an earlier use left in them.
\<close>

definition sample_defs :: xlink_defs where
  "sample_defs =
     \<lparr>XLINK_EVENT_HEADER_MAGIC = 0x786C6E6B,
      XLINK_INVALID_EVENT_ID = 0xDEADBEEF,
      XLINK_MAX_CONTROL_DATA_PCIE_SIZE = 100,
      sizeof_header = 128,
      XLINK_PACKET_ALIGNMENT = 64,
      event_type_zero = XLINK_WRITE_REQ,
      get_interface_from_sw_device_id = (\<lambda>_. 2),
      CONFIG_XLINK_LOCAL_HOST = False\<rparr>"

definition sample_handle :: xlink_handle where
  "sample_handle = \<lparr>sw_device_id = 0x1000000\<rparr>"

definition sample_event :: "u32 \<Rightarrow> xlink_event_type \<Rightarrow> xlink_event" where
  "sample_event lid ty =
     \<lparr>header = \<lparr>magic = 0x786C6E6B, h_id = 0xDEADBEEF, h_type = ty, chan = 3, h_size = 4,
                 timeout = 500\<rparr>,
      origin = EVENT_TX, link_id = lid, handle = Some sample_handle, interface = 2,
      data = 0x8000, paddr = 0x9000, user_data = 1\<rparr>"

definition stale_event :: xlink_event where
  "stale_event =
     \<lparr>header = \<lparr>magic = 0, h_id = 0x2a, h_type = XLINK_OTHER_EVENT 0, chan = 0, h_size = 0,
                 timeout = 0\<rparr>,
      origin = EVENT_RX, link_id = 1, handle = None, interface = 0,
      data = 0, paddr = 0, user_data = 1\<rparr>"

definition sample_events :: "event_ptr \<Rightarrow> xlink_event" where
  "sample_events p = (if p = 11 then sample_event 5 XLINK_WRITE_REQ
                      else if p = 12 then sample_event 0 XLINK_WRITE_CONTROL_REQ
                      else if p = 13 then sample_event 0 XLINK_PASSTHRU_READ_REQ
                      else if p < 10 then stale_event
                      else sample_event 0 XLINK_WRITE_REQ)"

definition sample_dispatcher :: "u32 \<Rightarrow> dispatcher_state \<Rightarrow> event_ptr list \<Rightarrow> dispatcher" where
  "sample_dispatcher lid st pool =
     \<lparr>d_link_id = lid, state = st, d_handle = Some sample_handle, d_interface = 2,
      rxthread = Task_null, txthread = Task_null,
      queue = \<lparr>count = 0, capacity = 100, head = []\<rparr>,
      buff_queue = sample_queue pool, event_sem = 0, rx_done = 0, tx_done = 0\<rparr>"

definition sample_sys :: "dispatcher_state \<Rightarrow> xlink_sys" where
  "sample_sys st =
     \<lparr>xlinkd = Some \<lparr>dispatchers = [sample_dispatcher 0 st [1, 2],
                                      sample_dispatcher 1 XLINK_DISPATCHER_INIT [3]],
                       dev = 7\<rparr>,
      ipc_disp = sample_dispatcher 0 XLINK_DISPATCHER_INIT [],
      events = sample_events,
      next_event_id = 0xa,
      error_printed = False,
      calls = []\<rparr>"

text \<open>Whether the link has a dispatcher that is \<open>RUNNING\<close>.\<close>

definition dispatcher_running :: "xlink_sys \<Rightarrow> u32 \<Rightarrow> bool" where
  "dispatcher_running s i =
     (case get_dispatcher_by_id s i of
        None \<Rightarrow> False
      | Some disp \<Rightarrow> state disp = XLINK_DISPATCHER_RUNNING)"

text \<open>Results of a transport write: complete with the given length, and failed.\<close>

definition write_ok :: "size_t \<Rightarrow> write_result" where
  "write_ok n = \<lparr>w_rc = 0, w_size = n\<rparr>"

definition write_failed :: write_result where
  "write_failed = \<lparr>w_rc = -5, w_size = 0\<rparr>"

text \<open>
  The calls a step added to the log, the transport writes and the buffer releases among
  them, and the test \<open>dispatcher_event_send\<close> makes on the result of the header write.
\<close>

definition new_calls :: "xlink_sys \<Rightarrow> xlink_sys \<Rightarrow> platform_call list" where
  "new_calls s s' = drop (length (calls s)) (calls s')"

fun is_write_call :: "platform_call \<Rightarrow> bool" where
  "is_write_call (Platform_write i dv b n t) = True"
| "is_write_call c = False"

fun is_deallocate_call :: "platform_call \<Rightarrow> bool" where
  "is_deallocate_call (Platform_deallocate dv b pa n al k) = True"
| "is_deallocate_call c = False"

definition header_write_complete :: "xlink_defs \<Rightarrow> write_result \<Rightarrow> xlink_event \<Rightarrow> bool" where
  "header_write_complete defs hw ev = (w_rc hw = 0 \<and> w_size hw = event_header_size defs ev)"

text \<open>
  Results of the three \<open>kthread_run\<close> calls: all threads spawned, and the TX thread or
  the RX thread not spawned, with the error pointer for \<open>-ENOMEM\<close>.
\<close>

definition spawn_ok :: kthread_results where
  "spawn_ok = \<lparr>tx_run = Spawned 21, rx_run = Spawned 22, ipc_run = Spawned 23\<rparr>"

definition spawn_tx_failed :: kthread_results where
  "spawn_tx_failed = \<lparr>tx_run = Spawn_failed (-12), rx_run = Spawned 22, ipc_run = Spawned 23\<rparr>"

definition spawn_rx_failed :: kthread_results where
  "spawn_rx_failed = \<lparr>tx_run = Spawned 21, rx_run = Spawn_failed (-12), ipc_run = Spawned 23\<rparr>"



section \<open>Properties of the queues\<close>

lemma unat_pred_word: "unat (w :: 'a::len word) = Suc n \<Longrightarrow> unat (w - 1) = n"
  by (metis diff_Suc_1 unat_minus_one unat_eq_zero nat.distinct(1) unsigned_0)

lemma unat_succ_word: "unat (w :: u32) < 2 ^ 32 - 1 \<Longrightarrow> unat (w + 1) = Suc (unat w)"
  by (simp add: unat_word_ariths)

lemma enqueue_buffer_inv: "queue_inv q \<Longrightarrow> queue_inv (snd (event_enqueue_buffer q e))"
  by (simp add: queue_inv_def event_enqueue_buffer_def)

lemma enqueue_buffer_exact:
  "queue_exact q \<Longrightarrow> length (head q) < 2 ^ 32 - 1 \<Longrightarrow>
     queue_exact (snd (event_enqueue_buffer q e))"
  by (simp add: queue_exact_def event_enqueue_buffer_def unat_succ_word)

lemma dequeue_inv: "queue_inv q \<Longrightarrow> queue_inv (snd (event_dequeue q))"
  by (cases "head q") (simp_all add: queue_inv_def event_dequeue_def)

lemma dequeue_exact: "queue_exact q \<Longrightarrow> queue_exact (snd (event_dequeue q))"
  by (cases "head q") (simp_all add: queue_exact_def event_dequeue_def unat_pred_word)

lemma dequeue_buffer_eq: "event_dequeue_buffer q = event_dequeue q"
  by (simp add: event_dequeue_buffer_def event_dequeue_def)

lemma dequeue_nonempty:
  "head q \<noteq> [] \<Longrightarrow>
     fst (event_dequeue q) = Some (hd (head q)) \<and> head (snd (event_dequeue q)) = tl (head q) \<and>
     count (snd (event_dequeue q)) = count q - 1"
  by (cases "head q") (simp_all add: event_dequeue_def)

lemma dequeue_empty: "head q = [] \<Longrightarrow> event_dequeue q = (None, q)"
  by (simp add: event_dequeue_def)

text \<open>
  C8. Every queue operation keeps the counter equal to the number of events in the list.
  \<open>event_enqueue_buffer\<close> always returns 0, appends the event at the tail and adds one to
  the counter; \<open>event_dequeue\<close> and \<open>event_dequeue_buffer\<close> (the same function) take the
  first event and subtract one on a queue that is not empty, and return NULL with the
  queue untouched on an empty one. The counter is a \<open>uint32_t\<close>: the equality holds in
  that type without condition, and as an equality of numbers as long as the new length
  still fits the counter.
\<close>

theorem queue_count_invariant:
  "queue_inv q \<Longrightarrow>
     fst (event_enqueue_buffer q e) = 0 \<and>
     head (snd (event_enqueue_buffer q e)) = head q @ [e] \<and>
     count (snd (event_enqueue_buffer q e)) = count q + 1 \<and>
     queue_inv (snd (event_enqueue_buffer q e)) \<and>
     (queue_exact q \<and> length (head q) < 2 ^ 32 - 1 \<longrightarrow>
        queue_exact (snd (event_enqueue_buffer q e))) \<and>
     (head q \<noteq> [] \<longrightarrow>
        fst (event_dequeue q) = Some (hd (head q)) \<and>
        head (snd (event_dequeue q)) = tl (head q) \<and>
        count (snd (event_dequeue q)) = count q - 1 \<and>
        queue_inv (snd (event_dequeue q)) \<and>
        (queue_exact q \<longrightarrow> queue_exact (snd (event_dequeue q))) \<and>
        event_dequeue_buffer q = event_dequeue q) \<and>
     (head q = [] \<longrightarrow> event_dequeue q = (None, q) \<and> event_dequeue_buffer q = (None, q))"
proof -
  assume inv: "queue_inv q"
  have enq: "fst (event_enqueue_buffer q e) = 0 \<and>
     head (snd (event_enqueue_buffer q e)) = head q @ [e] \<and>
     count (snd (event_enqueue_buffer q e)) = count q + 1"
    by (simp add: event_enqueue_buffer_def)
  show ?thesis
    using inv enq enqueue_buffer_inv [of q e] enqueue_buffer_exact [of q e]
      dequeue_inv [of q] dequeue_exact [of q] dequeue_buffer_eq [of q]
      dequeue_nonempty [of q] dequeue_empty [of q]
    by simp
qed

theorem queue_count_invariant_witness:
  "queue_inv (sample_queue [4, 5]) \<and> queue_exact (sample_queue [4, 5]) \<and>
   event_enqueue_buffer (sample_queue [4, 5]) 6 = (0, sample_queue [4, 5, 6]) \<and>
   queue_exact (sample_queue [4, 5, 6]) \<and>
   event_dequeue (sample_queue [4, 5]) = (Some 4, sample_queue [5]) \<and>
   event_dequeue_buffer (sample_queue [4, 5]) = (Some 4, sample_queue [5]) \<and>
   queue_inv (sample_queue []) \<and>
   event_dequeue (sample_queue []) = (None, sample_queue []) \<and>
   event_dequeue_buffer (sample_queue []) = (None, sample_queue [])"
proof -
  have i: "queue_inv (sample_queue [4, 5])" and j: "queue_inv (sample_queue [])"
    by (simp_all add: queue_inv_def sample_queue_def)
  have x: "queue_exact (sample_queue [4, 5])" "queue_exact (sample_queue [4, 5, 6])"
    by (simp_all add: queue_exact_def sample_queue_def)
  have e1: "event_enqueue_buffer (sample_queue [4, 5]) 6 = (0, sample_queue [4, 5, 6])"
    by (simp add: event_enqueue_buffer_def sample_queue_def)
  have d1: "event_dequeue (sample_queue [4, 5]) = (Some 4, sample_queue [5])"
    by (simp add: event_dequeue_def sample_queue_def)
  show ?thesis
    using queue_count_invariant [OF i, of 6] queue_count_invariant [OF j, of 6] i j x e1 d1
    by (simp add: sample_queue_def)
qed

lemma unat_threshold: "unat ((c :: u32) div 10 * 7) = unat c div 10 * 7"
proof -
  have "unat c < 2 ^ 32" using unsigned_less [of c] by simp
  then have "unat c div 10 * 7 < 2 ^ 32" by simp
  then show ?thesis
    by (simp add: unat_word_ariths unat_div)
qed

lemma enqueue_accepts_iff:
  "fst (event_enqueue q e) = 0 \<longleftrightarrow> unat (count q) < unat (capacity q) div 10 * 7"
  by (simp add: event_enqueue_def word_less_nat_alt unat_threshold)

lemma enqueue_accepted:
  "fst (event_enqueue q e) = 0 \<Longrightarrow>
     snd (event_enqueue q e) = q\<lparr>head := head q @ [e], count := count q + 1\<rparr>"
  by (simp add: event_enqueue_def split: if_splits)

lemma enqueue_accepted_count:
  assumes "fst (event_enqueue q e) = 0"
  shows "unat (count (snd (event_enqueue q e))) = Suc (unat (count q))"
proof -
  have "unat (count q) < unat (capacity q) div 10 * 7"
    using assms by (simp add: enqueue_accepts_iff)
  moreover have "unat (capacity q) < 2 ^ 32" using unsigned_less [of "capacity q"] by simp
  ultimately have "unat (count q) < 2 ^ 32 - 1" by simp
  then show ?thesis using assms by (simp add: enqueue_accepted unat_succ_word)
qed

lemma enqueue_rejected: "fst (event_enqueue q e) \<noteq> 0 \<Longrightarrow> event_enqueue q e = (-1, q)"
  by (simp add: event_enqueue_def split: if_splits)

text \<open>
  C6, as the code has it. \<open>event_enqueue\<close> accepts an event exactly when
  \<open>count < (capacity / 10) * 7\<close> in integer arithmetic. An accepted event is appended and
  counted, and the occupancy was then below 70 per cent of the capacity; a rejected push
  returns -1 and leaves the queue as it was. For a capacity that is a multiple of ten the
  test is the 70 per cent test; for capacity 100 it is \<open>count < 70\<close>.
\<close>

theorem event_enqueue_admission:
  "(fst (event_enqueue q e) = 0 \<longleftrightarrow> unat (count q) < unat (capacity q) div 10 * 7) \<and>
   (fst (event_enqueue q e) = 0 \<longrightarrow>
      10 * unat (count q) < 7 * unat (capacity q) \<and>
      snd (event_enqueue q e) = q\<lparr>head := head q @ [e], count := count q + 1\<rparr> \<and>
      unat (count (snd (event_enqueue q e))) = Suc (unat (count q))) \<and>
   (fst (event_enqueue q e) \<noteq> 0 \<longrightarrow> event_enqueue q e = (-1, q)) \<and>
   (unat (capacity q) mod 10 = 0 \<longrightarrow>
      (fst (event_enqueue q e) = 0 \<longleftrightarrow> 10 * unat (count q) < 7 * unat (capacity q))) \<and>
   (capacity q = 100 \<longrightarrow> (fst (event_enqueue q e) = 0 \<longleftrightarrow> unat (count q) < 70))"
proof -
  have a: "fst (event_enqueue q e) = 0 \<longleftrightarrow> unat (count q) < unat (capacity q) div 10 * 7"
    by (rule enqueue_accepts_iff)
  have b: "unat (count q) < unat (capacity q) div 10 * 7 \<Longrightarrow>
             10 * unat (count q) < 7 * unat (capacity q)"
    by arith
  have c: "(unat (count q) < unat (capacity q) div 10 * 7 \<longleftrightarrow>
              10 * unat (count q) < 7 * unat (capacity q))"
    if "unat (capacity q) mod 10 = 0"
  proof -
    from that obtain k where k: "unat (capacity q) = 10 * k"
      by (auto simp: mod_eq_0_iff_dvd)
    show ?thesis by (simp add: k mult.commute)
  qed
  have d: "capacity q = 100 \<Longrightarrow> unat (capacity q) div 10 * 7 = 70"
    by simp
  show ?thesis
    using a b c d enqueue_accepted [of q e] enqueue_accepted_count [of q e]
      enqueue_rejected [of q e]
    by simp
qed

theorem event_enqueue_admission_witness:
  "event_enqueue (capacity_100_queue [1, 2]) 3 = (0, capacity_100_queue [1, 2, 3]) \<and>
   event_enqueue (capacity_100_queue (replicate 70 0)) 3 = (-1, capacity_100_queue (replicate 70 0)) \<and>
   event_enqueue (capacity_100_queue (replicate 69 0)) 3 = (0, capacity_100_queue (replicate 69 0 @ [3]))"
  using event_enqueue_admission [of "capacity_100_queue [1, 2]" 3]
    event_enqueue_admission [of "capacity_100_queue (replicate 70 0)" 3]
    event_enqueue_admission [of "capacity_100_queue (replicate 69 0)" 3]
  by (simp add: capacity_100_queue_def prod_eq_iff)

text \<open>
  C6 as stated fails where the capacity is not a multiple of ten: with capacity 15 and
  8 events the occupancy is below 70 per cent (10.5), and the push is rejected.
\<close>

theorem event_enqueue_seventy_percent_counterexample:
  "10 * unat (count odd_capacity_queue) < 7 * unat (capacity odd_capacity_queue) \<and>
   event_enqueue odd_capacity_queue 9 = (-1, odd_capacity_queue)"
  by (simp add: odd_capacity_queue_def event_enqueue_def)

section \<open>Properties of the registry and of sending\<close>

lemma get_dispatcher_sample [simp]:
  "get_dispatcher_by_id (sample_sys st) 0 = Some (sample_dispatcher 0 st [1, 2])"
  "get_dispatcher_by_id (sample_sys st) 1 = Some (sample_dispatcher 1 XLINK_DISPATCHER_INIT [3])"
  "get_dispatcher_by_id (sample_sys st) 5 = None"
  by (simp_all add: get_dispatcher_by_id_def sample_sys_def XLINK_MAX_CONNECTIONS_def)

lemma get_dispatcher_None_iff:
  "get_dispatcher_by_id s i = None \<longleftrightarrow>
     (case xlinkd s of None \<Rightarrow> True | Some xd \<Rightarrow> XLINK_MAX_CONNECTIONS xd \<le> unat i)"
  by (simp add: get_dispatcher_by_id_def split: option.splits)

text \<open>
  C10. \<open>xlink_destroy_event\<close> (that is \<open>free_event\<close>) on an event whose \<open>link_id\<close> has no
  dispatcher, because there is no registry or the id is beyond the table, changes
  nothing: the event goes to no pool, and the function has no result to report with.
\<close>

theorem destroy_event_unknown_link:
  "(case xlinkd s of None \<Rightarrow> True
    | Some xd \<Rightarrow> XLINK_MAX_CONNECTIONS xd \<le> unat (link_id (events s event))) \<Longrightarrow>
   get_dispatcher_by_id s (link_id (events s event)) = None \<and>
   free_event event s = s \<and> xlink_destroy_event event s = s"
proof -
  assume "case xlinkd s of None \<Rightarrow> True
    | Some xd \<Rightarrow> XLINK_MAX_CONNECTIONS xd \<le> unat (link_id (events s event))"
  then have n: "get_dispatcher_by_id s (link_id (events s event)) = None"
    by (simp add: get_dispatcher_None_iff)
  then show ?thesis
    by (simp add: xlink_destroy_event_def free_event_def)
qed

theorem destroy_event_unknown_link_witness:
  "link_id (events (sample_sys XLINK_DISPATCHER_RUNNING) 11) = 5 \<and>
   xlink_destroy_event 11 (sample_sys XLINK_DISPATCHER_RUNNING) = sample_sys XLINK_DISPATCHER_RUNNING \<and>
   xlink_destroy_event 11 (sample_sys XLINK_DISPATCHER_RUNNING\<lparr>xlinkd := None\<rparr>) =
     sample_sys XLINK_DISPATCHER_RUNNING\<lparr>xlinkd := None\<rparr>"
proof -
  have l: "link_id (events (sample_sys XLINK_DISPATCHER_RUNNING) 11) = 5"
    by (simp add: sample_sys_def sample_events_def sample_event_def)
  have a: "(case xlinkd (sample_sys XLINK_DISPATCHER_RUNNING) of None \<Rightarrow> True
    | Some xd \<Rightarrow> XLINK_MAX_CONNECTIONS xd \<le> unat (link_id (events (sample_sys XLINK_DISPATCHER_RUNNING) 11)))"
    unfolding l by (simp add: sample_sys_def XLINK_MAX_CONNECTIONS_def)
  have b: "(case xlinkd (sample_sys XLINK_DISPATCHER_RUNNING\<lparr>xlinkd := None\<rparr>) of None \<Rightarrow> True
    | Some xd \<Rightarrow> XLINK_MAX_CONNECTIONS xd \<le> unat (link_id (events (sample_sys XLINK_DISPATCHER_RUNNING\<lparr>xlinkd := None\<rparr>) 11)))"
    by simp
  show ?thesis
    using destroy_event_unknown_link [OF a] destroy_event_unknown_link [OF b] l by simp
qed

text \<open>
  C1. For every origin, every event and whatever the transport would answer,
  \<open>xlink_dispatcher_event_add\<close> returns \<open>X_LINK_ERROR\<close> when the dispatcher of
  \<open>event->link_id\<close> is not \<open>RUNNING\<close> or does not exist, and the state after the call is
  the state before it: no transport call is made, and the event, the id counter and the
  dispatchers are as they were.
\<close>

theorem event_add_rejected_unless_running:
  "\<not> dispatcher_running s (link_id (events s event)) \<Longrightarrow>
   xlink_dispatcher_event_add defs hw dw orig event s = Some (X_LINK_ERROR, s)"
  by (cases "get_dispatcher_by_id s (link_id (events s event))")
    (simp_all add: dispatcher_running_def xlink_dispatcher_event_add_def)

theorem event_add_rejected_unless_running_witness:
  "\<not> dispatcher_running (sample_sys XLINK_DISPATCHER_INIT) (link_id (events (sample_sys XLINK_DISPATCHER_INIT) 10)) \<and>
   xlink_dispatcher_event_add sample_defs (write_ok 28) (write_ok 4) EVENT_TX 10 (sample_sys XLINK_DISPATCHER_INIT) =
     Some (X_LINK_ERROR, sample_sys XLINK_DISPATCHER_INIT) \<and>
   \<not> dispatcher_running (sample_sys XLINK_DISPATCHER_STOPPED) (link_id (events (sample_sys XLINK_DISPATCHER_STOPPED) 10)) \<and>
   xlink_dispatcher_event_add sample_defs (write_ok 28) (write_ok 4) EVENT_TX 10 (sample_sys XLINK_DISPATCHER_STOPPED) =
     Some (X_LINK_ERROR, sample_sys XLINK_DISPATCHER_STOPPED) \<and>
   \<not> dispatcher_running (sample_sys XLINK_DISPATCHER_RUNNING) (link_id (events (sample_sys XLINK_DISPATCHER_RUNNING) 11)) \<and>
   xlink_dispatcher_event_add sample_defs (write_ok 28) (write_ok 4) EVENT_TX 11 (sample_sys XLINK_DISPATCHER_RUNNING) =
     Some (X_LINK_ERROR, sample_sys XLINK_DISPATCHER_RUNNING)"
proof -
  have l: "link_id (events (sample_sys st) 10) = 0" "link_id (events (sample_sys st) 11) = 5" for st
    by (simp_all add: sample_sys_def sample_events_def sample_event_def)
  have a: "\<not> dispatcher_running (sample_sys XLINK_DISPATCHER_INIT) (link_id (events (sample_sys XLINK_DISPATCHER_INIT) 10))"
    and b: "\<not> dispatcher_running (sample_sys XLINK_DISPATCHER_STOPPED) (link_id (events (sample_sys XLINK_DISPATCHER_STOPPED) 10))"
    and c: "\<not> dispatcher_running (sample_sys XLINK_DISPATCHER_RUNNING) (link_id (events (sample_sys XLINK_DISPATCHER_RUNNING) 11))"
    by (simp_all add: l dispatcher_running_def sample_dispatcher_def)
  show ?thesis
    using a b c event_add_rejected_unless_running [OF a, of sample_defs "write_ok 28" "write_ok 4" EVENT_TX]
      event_add_rejected_unless_running [OF b, of sample_defs "write_ok 28" "write_ok 4" EVENT_TX]
      event_add_rejected_unless_running [OF c, of sample_defs "write_ok 28" "write_ok 4" EVENT_TX]
    by simp
qed

lemma create_event_alloc:
  "\<exists>s'. xlink_create_event defs lid ty (Some h) ch sz tmo s = Some (fst (alloc_event lid s), s')"
  by (cases "alloc_event lid s"; cases "fst (alloc_event lid s)")
    (simp_all add: xlink_create_event_def)

lemma alloc_event_head:
  "get_dispatcher_by_id s lid = Some disp \<Longrightarrow> head (buff_queue disp) = p # ps \<Longrightarrow>
     fst (alloc_event lid s) = Some p"
  by (simp add: alloc_event_def event_dequeue_buffer_def)

text \<open>
  C9. \<open>xlink_create_event\<close> with a handle returns the first event of the pool of a
  link whose pool is not empty. Whatever type, channel, size and timeout are passed, an
  event that it returns has the magic of a valid header (so \<open>is_valid_event_header\<close>
  gives 1), the id \<open>XLINK_INVALID_EVENT_ID\<close> and \<open>user_data\<close> 0.
\<close>

theorem create_event_fields:
  "(get_dispatcher_by_id s lid = Some disp \<and> head (buff_queue disp) = p # ps \<longrightarrow>
      (\<exists>s'. xlink_create_event defs lid ty (Some h) ch sz tmo s = Some (Some p, s'))) \<and>
   (\<forall>e s'. xlink_create_event defs lid ty hdl ch sz tmo s = Some (Some e, s') \<longrightarrow>
      magic (header (events s' e)) = XLINK_EVENT_HEADER_MAGIC defs \<and>
      h_id (header (events s' e)) = XLINK_INVALID_EVENT_ID defs \<and>
      user_data (events s' e) = 0 \<and>
      is_valid_event_header defs (events s' e) = 1)"
proof (intro conjI impI allI)
  assume "get_dispatcher_by_id s lid = Some disp \<and> head (buff_queue disp) = p # ps"
  then have "fst (alloc_event lid s) = Some p"
    by (simp add: alloc_event_head)
  with create_event_alloc [of defs lid ty h ch sz tmo s]
  show "\<exists>s'. xlink_create_event defs lid ty (Some h) ch sz tmo s = Some (Some p, s')"
    by simp
next
  fix e s'
  assume r: "xlink_create_event defs lid ty hdl ch sz tmo s = Some (Some e, s')"
  obtain a s1 where a: "alloc_event lid s = (a, s1)" by (cases "alloc_event lid s")
  from r a obtain h where h: "hdl = Some h" and ae: "a = Some e"
    by (cases a; cases hdl) (simp_all add: xlink_create_event_def)
  from r a h ae have s': "s' = upd_event e
                   (\<lambda>e. e\<lparr>link_id := lid,
                          handle := hdl,
                          interface := get_interface_from_sw_device_id defs (sw_device_id h),
                          user_data := 0,
                          header := (header e)\<lparr>magic := XLINK_EVENT_HEADER_MAGIC defs,
                                                 h_id := XLINK_INVALID_EVENT_ID defs,
                                                 h_type := ty,
                                                 chan := ch,
                                                 h_size := ucast sz,
                                                 timeout := tmo\<rparr>\<rparr>) s1"
    by (simp add: xlink_create_event_def)
  show "magic (header (events s' e)) = XLINK_EVENT_HEADER_MAGIC defs"
    "h_id (header (events s' e)) = XLINK_INVALID_EVENT_ID defs"
    "user_data (events s' e) = 0"
    "is_valid_event_header defs (events s' e) = 1"
    unfolding s' by (simp_all add: upd_event_def is_valid_event_header_def)
qed

theorem create_event_fields_witness:
  "fst (the (xlink_create_event sample_defs 0 XLINK_PASSTHRU_READ_REQ (Some sample_handle) 7 128 500
       (sample_sys XLINK_DISPATCHER_INIT))) = Some 1 \<and>
   magic (header (events (sample_sys XLINK_DISPATCHER_INIT) 1)) = 0 \<and>
   user_data (events (sample_sys XLINK_DISPATCHER_INIT) 1) = 1 \<and>
   magic (header (events (snd (the (xlink_create_event sample_defs 0 XLINK_PASSTHRU_READ_REQ
       (Some sample_handle) 7 128 500 (sample_sys XLINK_DISPATCHER_INIT)))) 1)) = 0x786C6E6B \<and>
   h_id (header (events (snd (the (xlink_create_event sample_defs 0 XLINK_PASSTHRU_READ_REQ
       (Some sample_handle) 7 128 500 (sample_sys XLINK_DISPATCHER_INIT)))) 1)) = 0xDEADBEEF \<and>
   user_data (events (snd (the (xlink_create_event sample_defs 0 XLINK_PASSTHRU_READ_REQ
       (Some sample_handle) 7 128 500 (sample_sys XLINK_DISPATCHER_INIT)))) 1) = 0 \<and>
   is_valid_event_header sample_defs (events (snd (the (xlink_create_event sample_defs 0
       XLINK_PASSTHRU_READ_REQ (Some sample_handle) 7 128 500
       (sample_sys XLINK_DISPATCHER_INIT)))) 1) = 1"
proof -
  let ?r = "xlink_create_event sample_defs 0 XLINK_PASSTHRU_READ_REQ (Some sample_handle) 7 128 500
       (sample_sys XLINK_DISPATCHER_INIT)"
  note th = create_event_fields [where s = "sample_sys XLINK_DISPATCHER_INIT" and lid = 0
      and disp = "sample_dispatcher 0 XLINK_DISPATCHER_INIT [1, 2]" and p = 1 and ps = "[2]"
      and defs = sample_defs and ty = XLINK_PASSTHRU_READ_REQ and h = sample_handle
      and hdl = "Some sample_handle" and ch = 7 and sz = 128 and tmo = 500]
  have p: "head (buff_queue (sample_dispatcher i st es)) = es" for i st es
    by (simp add: sample_dispatcher_def sample_queue_def)
  from th obtain s' where r: "?r = Some (Some 1, s')"
    by (auto simp: p)
  have old: "magic (header (events (sample_sys XLINK_DISPATCHER_INIT) 1)) = 0"
    "user_data (events (sample_sys XLINK_DISPATCHER_INIT) 1) = 1"
    by (simp_all add: sample_sys_def sample_events_def stale_event_def)
  have d: "XLINK_EVENT_HEADER_MAGIC sample_defs = 0x786C6E6B"
    "XLINK_INVALID_EVENT_ID sample_defs = 0xDEADBEEF"
    by (simp_all add: sample_defs_def)
  from th r have "magic (header (events s' 1)) = XLINK_EVENT_HEADER_MAGIC sample_defs \<and>
      h_id (header (events s' 1)) = XLINK_INVALID_EVENT_ID sample_defs \<and>
      user_data (events s' 1) = 0 \<and>
      is_valid_event_header sample_defs (events s' 1) = 1"
    by blast
  then show ?thesis
    using old d by (simp add: r)
qed

lemma new_calls_append [simp]: "calls s' = calls s @ xs \<Longrightarrow> new_calls s s' = xs"
  by (simp add: new_calls_def)

lemma event_send_incomplete:
  assumes "handle (events s event) = Some h" and "\<not> header_write_complete defs hw (events s event)"
  shows "dispatcher_event_send defs hw dw event s =
    Some (w_rc hw, s\<lparr>calls := calls s @ [Platform_write (interface (events s event)) (sw_device_id h)
        (Header_buf event) (event_header_size defs (events s event))
        (timeout (header (events s event)))], error_printed := True\<rparr>)"
  using assms
  by (auto simp: dispatcher_event_send_def header_write_complete_def log_call_def Let_def)

lemma event_send_other:
  assumes "handle (events s event) = Some h" and "header_write_complete defs hw (events s event)"
    and "\<not> is_write_variant (h_type (header (events s event)))"
  shows "dispatcher_event_send defs hw dw event s =
    Some (w_rc hw, s\<lparr>calls := calls s @ [Platform_write (interface (events s event)) (sw_device_id h)
        (Header_buf event) (event_header_size defs (events s event))
        (timeout (header (events s event)))]\<rparr>)"
  using assms
  by (auto simp: dispatcher_event_send_def header_write_complete_def log_call_def Let_def)

lemma event_send_borrowed:
  assumes "handle (events s event) = Some h" and "header_write_complete defs hw (events s event)"
    and "is_write_variant (h_type (header (events s event)))"
    and "user_data (events s event) \<noteq> 1"
  shows "dispatcher_event_send defs hw dw event s =
    Some (w_rc dw, upd_event event (\<lambda>e. e\<lparr>header := (header e)\<lparr>h_size := w_size dw\<rparr>\<rparr>)
      (s\<lparr>calls := calls s @ [Platform_write (interface (events s event)) (sw_device_id h)
        (Header_buf event) (event_header_size defs (events s event))
        (timeout (header (events s event))),
        Platform_write (interface (events s event)) (sw_device_id h)
        (Data_buf (data (events s event))) (h_size (header (events s event)))
        (timeout (header (events s event)))], error_printed := False\<rparr>))"
  using assms
  by (auto simp: dispatcher_event_send_def header_write_complete_def log_call_def Let_def
      upd_event_def)

lemma event_send_owned:
  assumes "handle (events s event) = Some h" and "header_write_complete defs hw (events s event)"
    and "is_write_variant (h_type (header (events s event)))"
    and "user_data (events s event) = 1" and "xlinkd s = Some xd"
  shows "dispatcher_event_send defs hw dw event s =
    Some (w_rc dw, upd_event event (\<lambda>e. e\<lparr>header := (header e)\<lparr>h_size := w_size dw\<rparr>\<rparr>)
      (s\<lparr>calls := calls s @ [Platform_write (interface (events s event)) (sw_device_id h)
        (Header_buf event) (event_header_size defs (events s event))
        (timeout (header (events s event))),
        Platform_write (interface (events s event)) (sw_device_id h)
        (Data_buf (data (events s event))) (h_size (header (events s event)))
        (timeout (header (events s event))),
        Platform_deallocate (dev xd) (data (events s event)) (paddr (events s event)) (w_size dw)
          (XLINK_PACKET_ALIGNMENT defs)
          (if paddr (events s event) \<noteq> 0 then XLINK_CMA_MEMORY else XLINK_NORMAL_MEMORY)],
        error_printed := False\<rparr>))"
  using assms
  by (auto simp: dispatcher_event_send_def header_write_complete_def log_call_def Let_def
      upd_event_def)


lemma upd_event_calls [simp]: "calls (upd_event p f s) = calls s"
  by (simp add: upd_event_def)

text \<open>
  C2, as the code has it. With a handle on the event and a registry,
  \<open>dispatcher_event_send\<close> returns, and its transport writes are these. The first is the
  header write; its length is the header without the control-data region, and
  \<open>header.size\<close> is added to it exactly when the type is \<open>XLINK_WRITE_CONTROL_REQ\<close> (not for
  the four write variants). A second write follows exactly when the header write was
  complete and the type is one of the four write variants; it sends the payload buffer
  with length \<open>header.size\<close>. There is no other write.
\<close>

theorem event_send_transfers:
  "handle (events s event) = Some h \<Longrightarrow> xlinkd s = Some xd \<Longrightarrow>
   \<exists>rc s'. dispatcher_event_send defs hw dw event s = Some (rc, s') \<and>
     filter is_write_call (new_calls s s') =
       Platform_write (interface (events s event)) (sw_device_id h) (Header_buf event)
         (sizeof_header defs - XLINK_MAX_CONTROL_DATA_PCIE_SIZE defs +
            (if h_type (header (events s event)) = XLINK_WRITE_CONTROL_REQ
             then h_size (header (events s event)) else 0))
         (timeout (header (events s event)))
       # (if header_write_complete defs hw (events s event) \<and>
             is_write_variant (h_type (header (events s event)))
          then [Platform_write (interface (events s event)) (sw_device_id h)
                  (Data_buf (data (events s event))) (h_size (header (events s event)))
                  (timeout (header (events s event)))]
          else [])"
proof -
  assume h: "handle (events s event) = Some h" and xd: "xlinkd s = Some xd"
  consider (incomplete) "\<not> header_write_complete defs hw (events s event)"
    | (other) "header_write_complete defs hw (events s event)"
        "\<not> is_write_variant (h_type (header (events s event)))"
    | (borrowed) "header_write_complete defs hw (events s event)"
        "is_write_variant (h_type (header (events s event)))" "user_data (events s event) \<noteq> 1"
    | (owned) "header_write_complete defs hw (events s event)"
        "is_write_variant (h_type (header (events s event)))" "user_data (events s event) = 1"
    by blast
  then show ?thesis
  proof cases
    case incomplete
    then show ?thesis
      by (simp add: event_send_incomplete [OF h] event_header_size_def)
  next
    case other
    then show ?thesis
      by (simp add: event_send_other [OF h] event_header_size_def)
  next
    case borrowed
    then show ?thesis
      by (simp add: event_send_borrowed [OF h] event_header_size_def)
  next
    case owned
    then show ?thesis
      by (simp add: event_send_owned [OF h _ _ _ xd] event_header_size_def)
  qed
qed

text \<open>
  C5, as the code has it. \<open>dispatcher_event_send\<close> releases the payload buffer exactly
  when the header write was complete, the type is one of the four write variants and
  \<open>user_data\<close> is 1. The release is then the last call, after the data write, whatever
  the status \<open>w_rc dw\<close> of that write is, and the function returns that status. The
  memory kind is \<open>XLINK_CMA_MEMORY\<close> exactly when \<open>paddr\<close> is not 0, and
  \<open>XLINK_NORMAL_MEMORY\<close> otherwise.
\<close>

theorem event_send_release:
  "handle (events s event) = Some h \<Longrightarrow> xlinkd s = Some xd \<Longrightarrow>
   \<exists>rc s'. dispatcher_event_send defs hw dw event s = Some (rc, s') \<and>
     filter is_deallocate_call (new_calls s s') =
       (if header_write_complete defs hw (events s event) \<and>
           is_write_variant (h_type (header (events s event))) \<and>
           user_data (events s event) = 1
        then [Platform_deallocate (dev xd) (data (events s event)) (paddr (events s event))
                (w_size dw) (XLINK_PACKET_ALIGNMENT defs)
                (if paddr (events s event) \<noteq> 0 then XLINK_CMA_MEMORY else XLINK_NORMAL_MEMORY)]
        else []) \<and>
     (header_write_complete defs hw (events s event) \<and>
      is_write_variant (h_type (header (events s event))) \<and>
      user_data (events s event) = 1 \<longrightarrow>
        rc = w_rc dw \<and>
        new_calls s s' =
          [Platform_write (interface (events s event)) (sw_device_id h) (Header_buf event)
             (event_header_size defs (events s event)) (timeout (header (events s event))),
           Platform_write (interface (events s event)) (sw_device_id h)
             (Data_buf (data (events s event))) (h_size (header (events s event)))
             (timeout (header (events s event))),
           Platform_deallocate (dev xd) (data (events s event)) (paddr (events s event))
             (w_size dw) (XLINK_PACKET_ALIGNMENT defs)
             (if paddr (events s event) \<noteq> 0 then XLINK_CMA_MEMORY else XLINK_NORMAL_MEMORY)])"
proof -
  assume h: "handle (events s event) = Some h" and xd: "xlinkd s = Some xd"
  consider (incomplete) "\<not> header_write_complete defs hw (events s event)"
    | (other) "header_write_complete defs hw (events s event)"
        "\<not> is_write_variant (h_type (header (events s event)))"
    | (borrowed) "header_write_complete defs hw (events s event)"
        "is_write_variant (h_type (header (events s event)))" "user_data (events s event) \<noteq> 1"
    | (owned) "header_write_complete defs hw (events s event)"
        "is_write_variant (h_type (header (events s event)))" "user_data (events s event) = 1"
    by blast
  then show ?thesis
  proof cases
    case incomplete
    then show ?thesis
      by (simp add: event_send_incomplete [OF h])
  next
    case other
    then show ?thesis
      by (simp add: event_send_other [OF h])
  next
    case borrowed
    then show ?thesis
      by (simp add: event_send_borrowed [OF h])
  next
    case owned
    then show ?thesis
      by (simp add: event_send_owned [OF h _ _ _ xd])
  qed
qed


lemma sample_event_10:
  "events (sample_sys st) 10 = sample_event 0 XLINK_WRITE_REQ"
  "events (sample_sys st) 12 = sample_event 0 XLINK_WRITE_CONTROL_REQ"
  "events (sample_sys st) 13 = sample_event 0 XLINK_PASSTHRU_READ_REQ"
  by (simp_all add: sample_sys_def sample_events_def)

lemma sample_sys_fields:
  "xlinkd (sample_sys st) = Some \<lparr>dispatchers = [sample_dispatcher 0 st [1, 2],
      sample_dispatcher 1 XLINK_DISPATCHER_INIT [3]], dev = 7\<rparr>"
  "calls (sample_sys st) = []"
  by (simp_all add: sample_sys_def)

lemma sample_complete:
  "header_write_complete sample_defs (write_ok 28) (sample_event 0 XLINK_WRITE_REQ)"
  "header_write_complete sample_defs (write_ok 28) (sample_event 0 XLINK_PASSTHRU_READ_REQ)"
  "header_write_complete sample_defs (write_ok 32) (sample_event 0 XLINK_WRITE_CONTROL_REQ)"
  "\<not> header_write_complete sample_defs write_failed (sample_event 0 XLINK_WRITE_REQ)"
  by (simp_all add: header_write_complete_def write_ok_def write_failed_def sample_defs_def
      sample_event_def event_header_size_def)

theorem event_send_transfers_witness:
  "map_option (\<lambda>r. filter is_write_call (new_calls (sample_sys XLINK_DISPATCHER_RUNNING) (snd r)))
     (dispatcher_event_send sample_defs (write_ok 32) (write_ok 4) 12
        (sample_sys XLINK_DISPATCHER_RUNNING)) =
     Some [Platform_write 2 0x1000000 (Header_buf 12) 32 500] \<and>
   map_option (\<lambda>r. filter is_write_call (new_calls (sample_sys XLINK_DISPATCHER_RUNNING) (snd r)))
     (dispatcher_event_send sample_defs (write_ok 28) (write_ok 4) 10
        (sample_sys XLINK_DISPATCHER_RUNNING)) =
     Some [Platform_write 2 0x1000000 (Header_buf 10) 28 500,
           Platform_write 2 0x1000000 (Data_buf 0x8000) 4 500] \<and>
   map_option (\<lambda>r. filter is_write_call (new_calls (sample_sys XLINK_DISPATCHER_RUNNING) (snd r)))
     (dispatcher_event_send sample_defs (write_ok 28) (write_ok 4) 13
        (sample_sys XLINK_DISPATCHER_RUNNING)) =
     Some [Platform_write 2 0x1000000 (Header_buf 13) 28 500]"
proof -
  have h: "handle (events (sample_sys XLINK_DISPATCHER_RUNNING) 10) = Some sample_handle"
    "handle (events (sample_sys XLINK_DISPATCHER_RUNNING) 12) = Some sample_handle"
    "handle (events (sample_sys XLINK_DISPATCHER_RUNNING) 13) = Some sample_handle"
    by (simp_all add: sample_event_10 sample_event_def)
  note x = sample_sys_fields(1) [of XLINK_DISPATCHER_RUNNING]
  have v: "is_write_variant XLINK_WRITE_REQ" "\<not> is_write_variant XLINK_WRITE_CONTROL_REQ"
    "\<not> is_write_variant XLINK_PASSTHRU_READ_REQ"
    by (simp_all add: is_write_variant_def)
  have f: "sizeof_header sample_defs - XLINK_MAX_CONTROL_DATA_PCIE_SIZE sample_defs = 28"
    by (simp add: sample_defs_def)
  have e: "interface (sample_event 0 ty) = 2" "h_type (header (sample_event 0 ty)) = ty"
    "h_size (header (sample_event 0 ty)) = 4" "timeout (header (sample_event 0 ty)) = 500"
    "data (sample_event 0 ty) = 0x8000" "sw_device_id sample_handle = 0x1000000" for ty
    by (simp_all add: sample_event_def sample_handle_def)
  show ?thesis
    using event_send_transfers [OF h(1) x, of sample_defs "write_ok 28" "write_ok 4"]
      event_send_transfers [OF h(2) x, of sample_defs "write_ok 32" "write_ok 4"]
      event_send_transfers [OF h(3) x, of sample_defs "write_ok 28" "write_ok 4"]
    unfolding sample_event_10 f e
    by (auto simp: sample_complete v)
qed

text \<open>
  C2 as stated fails twice. Event 10 is an ordinary write of 4 bytes: its header write
  has the fixed length 28, not 32. Event 12 has the type \<open>XLINK_WRITE_CONTROL_REQ\<close>,
  which is none of the four write variants: its header write has length 32, the fixed
  28 plus the size.
\<close>

theorem event_send_size_not_appended_counterexample:
  "is_write_variant (h_type (header (events (sample_sys XLINK_DISPATCHER_RUNNING) 10))) \<and>
   h_size (header (events (sample_sys XLINK_DISPATCHER_RUNNING) 10)) = 4 \<and>
   sizeof_header sample_defs - XLINK_MAX_CONTROL_DATA_PCIE_SIZE sample_defs = 28 \<and>
   map_option (\<lambda>r. new_calls (sample_sys XLINK_DISPATCHER_RUNNING) (snd r))
     (dispatcher_event_send sample_defs (write_ok 28) (write_ok 4) 10
        (sample_sys XLINK_DISPATCHER_RUNNING)) =
     Some [Platform_write 2 0x1000000 (Header_buf 10) 28 500,
           Platform_write 2 0x1000000 (Data_buf 0x8000) 4 500,
           Platform_deallocate 7 0x8000 0x9000 4 64 XLINK_CMA_MEMORY] \<and>
   \<not> is_write_variant (h_type (header (events (sample_sys XLINK_DISPATCHER_RUNNING) 12))) \<and>
   map_option (\<lambda>r. new_calls (sample_sys XLINK_DISPATCHER_RUNNING) (snd r))
     (dispatcher_event_send sample_defs (write_ok 32) (write_ok 4) 12
        (sample_sys XLINK_DISPATCHER_RUNNING)) =
     Some [Platform_write 2 0x1000000 (Header_buf 12) 32 500]"
proof -
  have h: "handle (sample_event 0 ty) = Some sample_handle" for ty
    by (simp add: sample_event_def)
  have h': "handle (events (sample_sys XLINK_DISPATCHER_RUNNING) 10) = Some sample_handle"
    "handle (events (sample_sys XLINK_DISPATCHER_RUNNING) 12) = Some sample_handle"
    by (simp_all add: sample_event_10 h)
  have v: "is_write_variant XLINK_WRITE_REQ" "\<not> is_write_variant XLINK_WRITE_CONTROL_REQ"
    by (simp_all add: is_write_variant_def)
  have a: "dispatcher_event_send sample_defs (write_ok 28) (write_ok 4) 10
        (sample_sys XLINK_DISPATCHER_RUNNING) = Some (w_rc (write_ok 4),
          upd_event 10 (\<lambda>e. e\<lparr>header := (header e)\<lparr>h_size := w_size (write_ok 4)\<rparr>\<rparr>)
           (sample_sys XLINK_DISPATCHER_RUNNING
            \<lparr>calls := [Platform_write 2 0x1000000 (Header_buf 10) 28 500,
           Platform_write 2 0x1000000 (Data_buf 0x8000) 4 500,
           Platform_deallocate 7 0x8000 0x9000 4 64 XLINK_CMA_MEMORY], error_printed := False\<rparr>))"
    by (subst event_send_owned [OF h'(1) _ _ _ sample_sys_fields(1)])
      (simp_all add: sample_event_10 sample_complete v sample_sys_fields,
       simp_all add: sample_event_def sample_handle_def sample_defs_def write_ok_def
         event_header_size_def v)
  have b: "dispatcher_event_send sample_defs (write_ok 32) (write_ok 4) 12
        (sample_sys XLINK_DISPATCHER_RUNNING) = Some (w_rc (write_ok 32),
          sample_sys XLINK_DISPATCHER_RUNNING
            \<lparr>calls := [Platform_write 2 0x1000000 (Header_buf 12) 32 500]\<rparr>)"
    by (subst event_send_other [OF h'(2)])
      (simp_all add: sample_event_10 sample_complete v sample_sys_fields,
       simp_all add: sample_event_def sample_handle_def sample_defs_def event_header_size_def v)
  show ?thesis
    unfolding a b
    by (simp add: sample_event_10 v new_calls_def sample_sys_fields)
      (simp add: sample_event_def sample_defs_def v)
qed


theorem event_send_release_witness:
  "map_option (\<lambda>r. filter is_deallocate_call (new_calls (sample_sys XLINK_DISPATCHER_RUNNING) (snd r)))
     (dispatcher_event_send sample_defs (write_ok 28) (write_ok 4) 10
        (sample_sys XLINK_DISPATCHER_RUNNING)) =
     Some [Platform_deallocate 7 0x8000 0x9000 4 64 XLINK_CMA_MEMORY] \<and>
   map_option (\<lambda>r. filter is_deallocate_call (new_calls (sample_sys XLINK_DISPATCHER_RUNNING) (snd r)))
     (dispatcher_event_send sample_defs write_failed (write_ok 4) 10
        (sample_sys XLINK_DISPATCHER_RUNNING)) = Some [] \<and>
   map_option (\<lambda>r. filter is_deallocate_call (new_calls (sample_sys XLINK_DISPATCHER_RUNNING) (snd r)))
     (dispatcher_event_send sample_defs (write_ok 28) (write_ok 4) 13
        (sample_sys XLINK_DISPATCHER_RUNNING)) = Some []"
proof -
  have h: "handle (events (sample_sys XLINK_DISPATCHER_RUNNING) 10) = Some sample_handle"
    "handle (events (sample_sys XLINK_DISPATCHER_RUNNING) 13) = Some sample_handle"
    by (simp_all add: sample_event_10 sample_event_def)
  note x = sample_sys_fields(1) [of XLINK_DISPATCHER_RUNNING]
  have v: "is_write_variant XLINK_WRITE_REQ" "\<not> is_write_variant XLINK_PASSTHRU_READ_REQ"
    by (simp_all add: is_write_variant_def)
  have e: "h_type (header (sample_event 0 ty)) = ty" "user_data (sample_event 0 ty) = 1"
    "data (sample_event 0 ty) = 0x8000" "paddr (sample_event 0 ty) = 0x9000"
    "XLINK_PACKET_ALIGNMENT sample_defs = 64" "w_size (write_ok 4) = 4" for ty
    by (simp_all add: sample_event_def sample_defs_def write_ok_def)
  show ?thesis
    using event_send_release [OF h(1) x, of sample_defs "write_ok 28" "write_ok 4"]
      event_send_release [OF h(1) x, of sample_defs write_failed "write_ok 4"]
      event_send_release [OF h(2) x, of sample_defs "write_ok 28" "write_ok 4"]
    unfolding sample_event_10 e
    by (auto simp: sample_complete v)
qed

text \<open>
  C5 as stated fails: the data write of event 10 fails (status -5), and the payload
  buffer is released all the same.
\<close>

theorem event_send_release_after_failed_write_counterexample:
  "w_rc write_failed \<noteq> 0 \<and>
   map_option fst
     (dispatcher_event_send sample_defs (write_ok 28) write_failed 10
        (sample_sys XLINK_DISPATCHER_RUNNING)) = Some (w_rc write_failed) \<and>
   map_option (\<lambda>r. new_calls (sample_sys XLINK_DISPATCHER_RUNNING) (snd r))
     (dispatcher_event_send sample_defs (write_ok 28) write_failed 10
        (sample_sys XLINK_DISPATCHER_RUNNING)) =
     Some [Platform_write 2 0x1000000 (Header_buf 10) 28 500,
           Platform_write 2 0x1000000 (Data_buf 0x8000) 4 500,
           Platform_deallocate 7 0x8000 0x9000 0 64 XLINK_CMA_MEMORY]"
proof -
  have h: "handle (events (sample_sys XLINK_DISPATCHER_RUNNING) 10) = Some sample_handle"
    by (simp add: sample_event_10 sample_event_def)
  have v: "is_write_variant XLINK_WRITE_REQ"
    by (simp add: is_write_variant_def)
  have a: "dispatcher_event_send sample_defs (write_ok 28) write_failed 10
        (sample_sys XLINK_DISPATCHER_RUNNING) = Some (w_rc write_failed,
          upd_event 10 (\<lambda>e. e\<lparr>header := (header e)\<lparr>h_size := w_size write_failed\<rparr>\<rparr>)
           (sample_sys XLINK_DISPATCHER_RUNNING
            \<lparr>calls := [Platform_write 2 0x1000000 (Header_buf 10) 28 500,
           Platform_write 2 0x1000000 (Data_buf 0x8000) 4 500,
           Platform_deallocate 7 0x8000 0x9000 0 64 XLINK_CMA_MEMORY], error_printed := False\<rparr>))"
    by (subst event_send_owned [OF h _ _ _ sample_sys_fields(1)])
      (simp_all add: sample_event_10 sample_complete v sample_sys_fields,
       simp_all add: sample_event_def sample_handle_def sample_defs_def write_failed_def
         event_header_size_def v)
  show ?thesis
    unfolding a
    by (simp add: new_calls_def sample_sys_fields) (simp add: write_failed_def)
qed

lemma get_dispatcher_cong: "xlinkd s' = xlinkd s \<Longrightarrow> get_dispatcher_by_id s' i = get_dispatcher_by_id s i"
  by (simp add: get_dispatcher_by_id_def)

lemma get_dispatcher_upd:
  "get_dispatcher_by_id s i = Some d \<Longrightarrow> get_dispatcher_by_id (upd_dispatcher i f s) i = Some (f d)"
  by (auto simp: get_dispatcher_by_id_def upd_dispatcher_def XLINK_MAX_CONNECTIONS_def
      split: option.splits if_splits)

lemma get_dispatcher_registry:
  "get_dispatcher_by_id s i = Some d \<Longrightarrow> \<exists>xd. xlinkd s = Some xd"
  by (simp add: get_dispatcher_by_id_def split: option.splits)

lemma configure_event_frame:
  "xlinkd (configure_event orig event s) = xlinkd s"
  "calls (configure_event orig event s) = calls s"
  "link_id (events (configure_event orig event s) p) = link_id (events s p)"
  "handle (events (configure_event orig event s) p) = handle (events s p)"
  by (simp_all add: configure_event_def upd_event_def event_generate_id_def)

lemma event_send_total:
  assumes h: "handle (events s event) = Some h" and xd: "xlinkd s = Some xd"
  shows "\<exists>rc s'. dispatcher_event_send defs hw dw event s = Some (rc, s') \<and>
           xlinkd s' = xlinkd s \<and> link_id (events s' event) = link_id (events s event)"
proof -
  consider (incomplete) "\<not> header_write_complete defs hw (events s event)"
    | (other) "header_write_complete defs hw (events s event)"
        "\<not> is_write_variant (h_type (header (events s event)))"
    | (borrowed) "header_write_complete defs hw (events s event)"
        "is_write_variant (h_type (header (events s event)))" "user_data (events s event) \<noteq> 1"
    | (owned) "header_write_complete defs hw (events s event)"
        "is_write_variant (h_type (header (events s event)))" "user_data (events s event) = 1"
    by blast
  then show ?thesis
  proof cases
    case incomplete
    then show ?thesis
      by (simp add: event_send_incomplete [OF h])
  next
    case other
    then show ?thesis
      by (simp add: event_send_other [OF h])
  next
    case borrowed
    then show ?thesis
      by (simp add: event_send_borrowed [OF h] upd_event_def)
  next
    case owned
    then show ?thesis
      by (simp add: event_send_owned [OF h _ _ _ xd] upd_event_def)
  qed
qed

text \<open>
  C4. For an event with a handle whose link has a \<open>RUNNING\<close> dispatcher, and for every
  result of the two transport writes, \<open>xlink_dispatcher_event_add\<close> runs
  \<open>dispatcher_event_send\<close>, then destroys the event, and returns \<open>X_LINK_SUCCESS\<close>: the
  event is at the tail of the buffer pool of its link, whose counter is one higher.
\<close>

theorem event_add_destroys_event:
  assumes gd: "get_dispatcher_by_id s (link_id (events s event)) = Some disp"
    and run: "state disp = XLINK_DISPATCHER_RUNNING"
    and h: "handle (events s event) = Some h"
  shows "\<exists>rc s3.
      dispatcher_event_send defs hw dw event (configure_event orig event s) = Some (rc, s3) \<and>
      xlink_dispatcher_event_add defs hw dw orig event s =
        Some (X_LINK_SUCCESS, xlink_destroy_event event s3) \<and>
      get_dispatcher_by_id s3 (link_id (events s event)) = Some disp \<and>
      get_dispatcher_by_id (xlink_destroy_event event s3) (link_id (events s event)) =
        Some (disp\<lparr>buff_queue := (buff_queue disp)\<lparr>head := head (buff_queue disp) @ [event],
                                                     count := count (buff_queue disp) + 1\<rparr>\<rparr>)"
proof -
  let ?s2 = "configure_event orig event s"
  from gd obtain xd where xd: "xlinkd s = Some xd"
    using get_dispatcher_registry by blast
  have h2: "handle (events ?s2 event) = Some h" and x2: "xlinkd ?s2 = Some xd"
    by (simp_all add: configure_event_frame h xd)
  from event_send_total [OF h2 x2, of defs hw dw]
  obtain rc s3 where send: "dispatcher_event_send defs hw dw event ?s2 = Some (rc, s3)"
    and x3: "xlinkd s3 = xlinkd s" and l3: "link_id (events s3 event) = link_id (events s event)"
    by (auto simp: configure_event_frame)
  have g3: "get_dispatcher_by_id s3 (link_id (events s event)) = Some disp"
    using gd by (simp add: get_dispatcher_cong [OF x3])
  have add: "xlink_dispatcher_event_add defs hw dw orig event s =
        Some (X_LINK_SUCCESS, xlink_destroy_event event s3)"
    by (simp add: xlink_dispatcher_event_add_def gd run send)
  have pool: "get_dispatcher_by_id (xlink_destroy_event event s3) (link_id (events s event)) =
        Some (disp\<lparr>buff_queue := (buff_queue disp)\<lparr>head := head (buff_queue disp) @ [event],
                                                     count := count (buff_queue disp) + 1\<rparr>\<rparr>)"
    by (simp add: xlink_destroy_event_def free_event_def l3 g3 get_dispatcher_upd
        event_enqueue_buffer_def)
  from send add g3 pool show ?thesis by blast
qed


theorem event_add_destroys_event_witness:
  "map_option fst (xlink_dispatcher_event_add sample_defs write_failed write_failed EVENT_TX 10
       (sample_sys XLINK_DISPATCHER_RUNNING)) = Some X_LINK_SUCCESS \<and>
   map_option (\<lambda>r. map_option (\<lambda>d. head (buff_queue d)) (get_dispatcher_by_id (snd r) 0))
     (xlink_dispatcher_event_add sample_defs write_failed write_failed EVENT_TX 10
       (sample_sys XLINK_DISPATCHER_RUNNING)) = Some (Some [1, 2, 10]) \<and>
   map_option fst (xlink_dispatcher_event_add sample_defs (write_ok 28) (write_ok 4) EVENT_RX 10
       (sample_sys XLINK_DISPATCHER_RUNNING)) = Some X_LINK_SUCCESS \<and>
   map_option (\<lambda>r. map_option (\<lambda>d. head (buff_queue d)) (get_dispatcher_by_id (snd r) 0))
     (xlink_dispatcher_event_add sample_defs (write_ok 28) (write_ok 4) EVENT_RX 10
       (sample_sys XLINK_DISPATCHER_RUNNING)) = Some (Some [1, 2, 10])"
proof -
  have l: "link_id (events (sample_sys XLINK_DISPATCHER_RUNNING) 10) = 0"
    by (simp add: sample_event_10 sample_event_def)
  have gd: "get_dispatcher_by_id (sample_sys XLINK_DISPATCHER_RUNNING)
      (link_id (events (sample_sys XLINK_DISPATCHER_RUNNING) 10)) =
      Some (sample_dispatcher 0 XLINK_DISPATCHER_RUNNING [1, 2])"
    by (simp add: l)
  have run: "state (sample_dispatcher 0 XLINK_DISPATCHER_RUNNING [1, 2]) = XLINK_DISPATCHER_RUNNING"
    by (simp add: sample_dispatcher_def)
  have h: "handle (events (sample_sys XLINK_DISPATCHER_RUNNING) 10) = Some sample_handle"
    by (simp add: sample_event_10 sample_event_def)
  have p: "head (buff_queue (sample_dispatcher i st es)) = es" for i st es
    by (simp add: sample_dispatcher_def sample_queue_def)
  show ?thesis
    using event_add_destroys_event [OF gd run h, of sample_defs write_failed write_failed EVENT_TX]
      event_add_destroys_event [OF gd run h, of sample_defs "write_ok 28" "write_ok 4" EVENT_RX]
    unfolding l by (auto simp: p)
qed

section \<open>Frame properties of the state updates\<close>

lemma upd_dispatcher_calls [simp]: "calls (upd_dispatcher i f s) = calls s"
  by (simp add: upd_dispatcher_def split: option.splits)

lemma upd_dispatcher_ipc [simp]: "ipc_disp (upd_dispatcher i f s) = ipc_disp s"
  by (simp add: upd_dispatcher_def split: option.splits)

lemma log_call_frame [simp]:
  "xlinkd (log_call c s) = xlinkd s" "calls (log_call c s) = calls s @ [c]"
  by (simp_all add: log_call_def)

lemma get_dispatcher_ipc_upd [simp]:
  "get_dispatcher_by_id (s\<lparr>ipc_disp := d\<rparr>) i = get_dispatcher_by_id s i"
  by (simp add: get_dispatcher_by_id_def)

lemma get_dispatcher_log [simp]:
  "get_dispatcher_by_id (log_call c s) i = get_dispatcher_by_id s i"
  by (simp add: get_dispatcher_by_id_def)

lemma new_calls_same [simp]: "calls s' = calls s \<Longrightarrow> new_calls s s' = []"
  by (simp add: new_calls_def)

section \<open>Properties of the RX thread\<close>






lemma get_dispatcher_upd_event [simp]:
  "get_dispatcher_by_id (upd_event p f s) i = get_dispatcher_by_id s i"
  by (simp add: get_dispatcher_by_id_def upd_event_def)



section \<open>Properties of starting a dispatcher\<close>

lemma get_dispatcher_upd_gen:
  "get_dispatcher_by_id (upd_dispatcher l f s) j =
     map_option (\<lambda>d. if l = j then f d else d) (get_dispatcher_by_id s j)"
  by (cases "xlinkd s")
    (auto simp: get_dispatcher_by_id_def upd_dispatcher_def XLINK_MAX_CONNECTIONS_def
      nth_list_update word_unat_eq_iff)

lemma state_upd_keeps:
  "(\<And>d. state (f d) = state d) \<Longrightarrow>
     map_option state (get_dispatcher_by_id (upd_dispatcher l f s) j) =
     map_option state (get_dispatcher_by_id s j)"
  by (cases "get_dispatcher_by_id s j") (simp_all add: get_dispatcher_upd_gen)

lemma alloc_event_state:
  "map_option state (get_dispatcher_by_id (snd (alloc_event lid s)) j) =
     map_option state (get_dispatcher_by_id s j)"
  by (cases "get_dispatcher_by_id s lid"; cases "event_dequeue_buffer (buff_queue (the (get_dispatcher_by_id s lid)))")
    (simp_all add: alloc_event_def state_upd_keeps)

lemma create_event_state:
  assumes "xlink_create_event defs lid ty hdl ch sz tmo s = Some (r, s')"
  shows "map_option state (get_dispatcher_by_id s' j) = map_option state (get_dispatcher_by_id s j)"
proof -
  obtain a s1 where a: "alloc_event lid s = (a, s1)" by (cases "alloc_event lid s")
  then have s1: "s1 = snd (alloc_event lid s)" by simp
  have "map_option state (get_dispatcher_by_id s1 j) = map_option state (get_dispatcher_by_id s j)"
    unfolding s1 by (rule alloc_event_state)
  moreover have "get_dispatcher_by_id s' j = get_dispatcher_by_id s1 j"
    using assms a by (cases a; cases hdl) (auto simp: xlink_create_event_def)
  ultimately show ?thesis by simp
qed

lemma rxthread_begin_state:
  assumes "rxthread_begin defs i s = Some (r, s')"
  shows "map_option state (get_dispatcher_by_id s' j) = map_option state (get_dispatcher_by_id s j)"
proof -
  from assms obtain disp where gd: "get_dispatcher_by_id s i = Some disp"
    by (cases "get_dispatcher_by_id s i") (simp_all add: rxthread_begin_def)
  from assms gd obtain r1 s1 where c: "xlink_create_event defs (d_link_id disp) (event_type_zero defs)
      (d_handle disp) 0 0 0 s = Some (r1, s1)"
    by (cases "xlink_create_event defs (d_link_id disp) (event_type_zero defs)
      (d_handle disp) 0 0 0 s") (auto simp: rxthread_begin_def)
  have "map_option state (get_dispatcher_by_id s' j) = map_option state (get_dispatcher_by_id s1 j)"
    using assms gd c
    by (cases r1) (auto simp: rxthread_begin_def complete_rx_done_def state_upd_keeps)
  with create_event_state [OF c] show ?thesis by simp
qed

lemma kthread_run_rxthread_state:
  assumes "kthread_run_rxthread defs r i s = Some s'"
  shows "map_option state (get_dispatcher_by_id s' j) = map_option state (get_dispatcher_by_id s j)"
  using assms
  by (cases r) (auto simp: kthread_run_rxthread_def dest: rxthread_begin_state)

lemma kthread_run_txthread_state:
  "map_option state (get_dispatcher_by_id (kthread_run_txthread r i s) j) =
     map_option state (get_dispatcher_by_id s j)"
  by (cases r) (simp_all add: kthread_run_txthread_def txthread_begin_def complete_tx_done_def
      state_upd_keeps)

lemma wait_tx_done_state:
  "wait_tx_done i s = Returns s' \<Longrightarrow>
     map_option state (get_dispatcher_by_id s' j) = map_option state (get_dispatcher_by_id s j)"
  by (cases "get_dispatcher_by_id s i")
    (auto simp: wait_tx_done_def state_upd_keeps split: if_splits)

lemma wait_rx_done_state:
  "wait_rx_done i s = Returns s' \<Longrightarrow>
     map_option state (get_dispatcher_by_id s' j) = map_option state (get_dispatcher_by_id s j)"
  by (cases "get_dispatcher_by_id s i")
    (auto simp: wait_rx_done_def state_upd_keeps split: if_splits)

lemma start_ipc_disp_success:
  "start_ipc_disp defs kt i lid tx s = Returns (X_LINK_SUCCESS, s') \<Longrightarrow>
     get_dispatcher_by_id s' j = get_dispatcher_by_id s j \<and> calls s' = calls s"
  by (cases "ipc_run kt")
    (auto simp: start_ipc_disp_def Let_def kthread_run_ipcthread_def
      ipc_passthru_rxthread_begin_def split: if_splits)


lemma task_of_not_null [simp]: "task_of r \<noteq> Task_null"
  by (cases r) simp_all

lemma start_rejected:
  assumes "get_dispatcher_by_id s i = Some disp"
    and "state disp = XLINK_DISPATCHER_RUNNING \<or> state disp = XLINK_DISPATCHER_ERROR"
  shows "xlink_dispatcher_start defs kt i hdl s = Returns (X_LINK_ERROR, s)"
  using assms get_dispatcher_registry [OF assms(1)]
  by (auto simp: xlink_dispatcher_start_def)

lemma start_allowed:
  assumes gd: "get_dispatcher_by_id s i = Some disp"
    and st: "state disp = XLINK_DISPATCHER_INIT \<or> state disp = XLINK_DISPATCHER_STOPPED"
  shows "xlink_dispatcher_start defs kt i (Some h) s =
    (case wait_tx_done i
            (kthread_run_txthread (tx_run kt) i
               (upd_dispatcher i
                  (\<lambda>d. d\<lparr>d_handle := Some h,
                         d_interface := get_interface_from_sw_device_id defs (sw_device_id h),
                         txthread := task_of (tx_run kt)\<rparr>) s)) of
       Faults \<Rightarrow> Faults
     | Blocks \<Rightarrow> Blocks
     | Returns s2 \<Rightarrow>
         (case kthread_run_rxthread defs (rx_run kt) i
                 (upd_dispatcher i
                    (\<lambda>d. d\<lparr>state := XLINK_DISPATCHER_RUNNING,
                           rxthread := task_of (rx_run kt)\<rparr>) s2) of
            None \<Rightarrow> Faults
          | Some s3 \<Rightarrow>
              (case wait_rx_done i s3 of
                 Faults \<Rightarrow> Faults
               | Blocks \<Rightarrow> Blocks
               | Returns s4 \<Rightarrow>
                   start_ipc_disp defs kt i (d_link_id disp) (task_of (tx_run kt)) s4)))"
  using gd st get_dispatcher_registry [OF gd]
  by (auto simp: xlink_dispatcher_start_def Let_def cong: outcome.case_cong option.case_cong)

lemma start_success_state:
  assumes gd: "get_dispatcher_by_id s i = Some disp"
    and ok: "xlink_dispatcher_start defs kt i hdl s = Returns (X_LINK_SUCCESS, s')"
  shows "(state disp = XLINK_DISPATCHER_INIT \<or> state disp = XLINK_DISPATCHER_STOPPED) \<and>
         map_option state (get_dispatcher_by_id s' i) = Some XLINK_DISPATCHER_RUNNING"
proof -
  have st: "state disp = XLINK_DISPATCHER_INIT \<or> state disp = XLINK_DISPATCHER_STOPPED"
    using ok start_rejected [OF gd, of defs kt hdl] by (cases "state disp") auto
  from ok gd st obtain h where h: "hdl = Some h"
    using get_dispatcher_registry [OF gd]
    by (cases hdl) (auto simp: xlink_dispatcher_start_def)
  let ?s0 = "upd_dispatcher i
                  (\<lambda>d. d\<lparr>d_handle := Some h,
                         d_interface := get_interface_from_sw_device_id defs (sw_device_id h),
                         txthread := task_of (tx_run kt)\<rparr>) s"
  let ?s1 = "kthread_run_txthread (tx_run kt) i ?s0"
  note eq = ok [unfolded h start_allowed [OF gd st]]
  from eq obtain s2 where w1: "wait_tx_done i ?s1 = Returns s2"
    by (cases "wait_tx_done i ?s1") simp_all
  let ?s2' = "upd_dispatcher i
                    (\<lambda>d. d\<lparr>state := XLINK_DISPATCHER_RUNNING,
                           rxthread := task_of (rx_run kt)\<rparr>) s2"
  from eq w1 obtain s3 where k: "kthread_run_rxthread defs (rx_run kt) i ?s2' = Some s3"
    by (cases "kthread_run_rxthread defs (rx_run kt) i ?s2'") simp_all
  from eq w1 k obtain s4 where w2: "wait_rx_done i s3 = Returns s4"
    by (cases "wait_rx_done i s3") simp_all
  from eq w1 k w2 have ipc: "start_ipc_disp defs kt i (d_link_id disp) (task_of (tx_run kt)) s4 =
      Returns (X_LINK_SUCCESS, s')"
    by simp
  have "map_option state (get_dispatcher_by_id ?s0 i) = Some (state disp)"
    by (simp add: get_dispatcher_upd_gen gd)
  then have "map_option state (get_dispatcher_by_id s2 i) = Some (state disp)"
    by (simp add: wait_tx_done_state [OF w1] kthread_run_txthread_state)
  then obtain d2 where d2: "get_dispatcher_by_id s2 i = Some d2"
    by (cases "get_dispatcher_by_id s2 i") simp_all
  have "map_option state (get_dispatcher_by_id ?s2' i) = Some XLINK_DISPATCHER_RUNNING"
    by (simp add: get_dispatcher_upd_gen d2)
  then have "map_option state (get_dispatcher_by_id s4 i) = Some XLINK_DISPATCHER_RUNNING"
    by (simp add: wait_rx_done_state [OF w2] kthread_run_rxthread_state [OF k])
  with start_ipc_disp_success [OF ipc, of i] st show ?thesis by simp
qed

lemma record_same [simp]: "d\<lparr>tx_done := tx_done d\<rparr> = (d :: dispatcher)"
  "d\<lparr>rx_done := rx_done d\<rparr> = (d :: dispatcher)"
  by simp_all

lemma start_succeeds:
  assumes gd: "get_dispatcher_by_id s i = Some disp"
    and st: "state disp = XLINK_DISPATCHER_INIT \<or> state disp = XLINK_DISPATCHER_STOPPED"
    and tx: "tx_run kt = Spawned t" and rx: "rx_run kt = Spawned r"
    and lid: "d_link_id disp = i" and pool: "head (buff_queue disp) = p # ps"
    and ipc: "\<not> CONFIG_XLINK_LOCAL_HOST defs \<or> state (ipc_disp s) = XLINK_DISPATCHER_RUNNING \<or>
              (\<exists>u. ipc_run kt = Spawned u)"
  shows "\<exists>s'. xlink_dispatcher_start defs kt i (Some h) s = Returns (X_LINK_SUCCESS, s') \<and>
           get_dispatcher_by_id s' i =
             Some (disp\<lparr>d_handle := Some h,
                        d_interface := get_interface_from_sw_device_id defs (sw_device_id h),
                        txthread := Task t, state := XLINK_DISPATCHER_RUNNING,
                        rxthread := Task r,
                        buff_queue := (buff_queue disp)\<lparr>head := ps,
                                                        count := count (buff_queue disp) - 1\<rparr>\<rparr>) \<and>
           new_calls s s' = []"
proof -
  let ?d0 = "disp\<lparr>d_handle := Some h,
                   d_interface := get_interface_from_sw_device_id defs (sw_device_id h),
                   txthread := Task t\<rparr>"
  let ?s0 = "upd_dispatcher i
                  (\<lambda>d. d\<lparr>d_handle := Some h,
                         d_interface := get_interface_from_sw_device_id defs (sw_device_id h),
                         txthread := Task t\<rparr>) s"
  let ?s1 = "kthread_run_txthread (Spawned t) i ?s0"
  have g1: "get_dispatcher_by_id ?s1 i = Some (?d0\<lparr>tx_done := Suc (tx_done disp)\<rparr>)"
    by (simp add: kthread_run_txthread_def txthread_begin_def complete_tx_done_def
        get_dispatcher_upd_gen gd)
  define s2 where "s2 = upd_dispatcher i (\<lambda>d. d\<lparr>tx_done := tx_done d - 1\<rparr>) ?s1"
  have w1: "wait_tx_done i ?s1 = Returns s2"
    by (simp add: wait_tx_done_def g1 s2_def)
  have g2: "get_dispatcher_by_id s2 i = Some ?d0"
    by (simp add: s2_def get_dispatcher_upd_gen g1)
  have c2: "calls s2 = calls s" and i2: "ipc_disp s2 = ipc_disp s"
    by (simp_all add: s2_def kthread_run_txthread_def txthread_begin_def complete_tx_done_def)
  let ?d2 = "?d0\<lparr>state := XLINK_DISPATCHER_RUNNING, rxthread := Task r\<rparr>"
  define s2' where "s2' = upd_dispatcher i
                    (\<lambda>d. d\<lparr>state := XLINK_DISPATCHER_RUNNING, rxthread := Task r\<rparr>) s2"
  have g2': "get_dispatcher_by_id s2' i = Some ?d2"
    by (simp add: s2'_def get_dispatcher_upd_gen g2)
  have c2': "calls s2' = calls s" and i2': "ipc_disp s2' = ipc_disp s"
    by (simp_all add: s2'_def c2 i2)
  let ?q = "(buff_queue disp)\<lparr>head := ps, count := count (buff_queue disp) - 1\<rparr>"
  define s2a where "s2a = upd_dispatcher i (\<lambda>d. d\<lparr>buff_queue := ?q\<rparr>) s2'"
  have al: "alloc_event i s2' = (Some p, s2a)"
    by (simp add: alloc_event_def g2' event_dequeue_buffer_def pool s2a_def)
  have g2a: "get_dispatcher_by_id s2a i = Some (?d2\<lparr>buff_queue := ?q\<rparr>)"
    by (simp add: s2a_def get_dispatcher_upd_gen g2')
  have c2a: "calls s2a = calls s" and i2a: "ipc_disp s2a = ipc_disp s"
    by (simp_all add: s2a_def c2' i2')
  obtain s2b where cr: "xlink_create_event defs i (event_type_zero defs) (Some h) 0 0 0 s2' =
      Some (Some p, s2b)"
    and g2b: "get_dispatcher_by_id s2b i = Some (?d2\<lparr>buff_queue := ?q\<rparr>)"
    and c2b: "calls s2b = calls s" and i2b: "ipc_disp s2b = ipc_disp s"
    by (simp add: xlink_create_event_def al g2a c2a i2a) (simp add: upd_event_def i2a)
  define s3 where "s3 = complete_rx_done i s2b"
  have k: "kthread_run_rxthread defs (Spawned r) i s2' = Some s3"
    by (simp add: kthread_run_rxthread_def rxthread_begin_def g2' lid cr s3_def)
  have g3: "get_dispatcher_by_id s3 i =
      Some (?d2\<lparr>buff_queue := ?q, rx_done := Suc (rx_done disp)\<rparr>)"
    by (simp add: s3_def complete_rx_done_def get_dispatcher_upd_gen g2b)
  have c3: "calls s3 = calls s" and i3: "ipc_disp s3 = ipc_disp s"
    by (simp_all add: s3_def complete_rx_done_def c2b i2b)
  define s4 where "s4 = upd_dispatcher i (\<lambda>d. d\<lparr>rx_done := rx_done d - 1\<rparr>) s3"
  have w2: "wait_rx_done i s3 = Returns s4"
    by (simp add: wait_rx_done_def g3 s4_def)
  have g4: "get_dispatcher_by_id s4 i = Some (?d2\<lparr>buff_queue := ?q\<rparr>)"
    by (simp add: s4_def get_dispatcher_upd_gen g3)
  have c4: "calls s4 = calls s" and i4: "ipc_disp s4 = ipc_disp s"
    by (simp_all add: s4_def c3 i3)
  have "\<exists>s'. start_ipc_disp defs kt i (d_link_id disp) (Task t) s4 =
      Returns (X_LINK_SUCCESS, s')"
  proof (cases "CONFIG_XLINK_LOCAL_HOST defs \<and>
      state (ipc_disp s) \<noteq> XLINK_DISPATCHER_RUNNING")
    case False
    then show ?thesis by (auto simp: start_ipc_disp_def i4)
  next
    case True
    with ipc obtain u where "ipc_run kt = Spawned u" by auto
    with True show ?thesis
      by (simp add: start_ipc_disp_def Let_def i4 kthread_run_ipcthread_def
          ipc_passthru_rxthread_begin_def)
  qed
  then obtain s' where fin: "start_ipc_disp defs kt i (d_link_id disp) (Task t) s4 =
      Returns (X_LINK_SUCCESS, s')"
    by blast
  have start: "xlink_dispatcher_start defs kt i (Some h) s = Returns (X_LINK_SUCCESS, s')"
    unfolding start_allowed [OF gd st] tx rx
    by (simp add: w1 s2'_def [symmetric] k w2 fin)
  from start_ipc_disp_success [OF fin, of i] g4 c4
  have "get_dispatcher_by_id s' i = Some (?d2\<lparr>buff_queue := ?q\<rparr>)" and "new_calls s s' = []"
    by simp_all
  with start show ?thesis by simp
qed


text \<open>
  A failed \<open>kthread_run\<close> gives an error pointer, which the NULL tests of
  \<open>xlink_dispatcher_start\<close> let pass. With no signal left on the completion, the call
  then waits for a thread that does not exist and does not return: the labels
  \<open>r_txthread\<close> and \<open>r_rxthread\<close> are not reached.
\<close>

lemma start_waits_on_failed_spawn:
  assumes gd: "get_dispatcher_by_id s i = Some disp"
    and st: "state disp = XLINK_DISPATCHER_INIT \<or> state disp = XLINK_DISPATCHER_STOPPED"
  shows "(tx_run kt = Spawn_failed e \<and> tx_done disp = 0 \<longrightarrow>
            xlink_dispatcher_start defs kt i (Some h) s = Blocks) \<and>
         (tx_run kt = Spawned t \<and> rx_run kt = Spawn_failed e \<and> rx_done disp = 0 \<longrightarrow>
            xlink_dispatcher_start defs kt i (Some h) s = Blocks)"
proof (intro conjI impI)
  assume a: "tx_run kt = Spawn_failed e \<and> tx_done disp = 0"
  then show "xlink_dispatcher_start defs kt i (Some h) s = Blocks"
    unfolding start_allowed [OF gd st]
    by (simp add: kthread_run_txthread_def wait_tx_done_def get_dispatcher_upd_gen gd)
next
  assume a: "tx_run kt = Spawned t \<and> rx_run kt = Spawn_failed e \<and> rx_done disp = 0"
  let ?s0 = "upd_dispatcher i
                  (\<lambda>d. d\<lparr>d_handle := Some h,
                         d_interface := get_interface_from_sw_device_id defs (sw_device_id h),
                         txthread := Task t\<rparr>) s"
  let ?s1 = "kthread_run_txthread (Spawned t) i ?s0"
  define s2 where "s2 = upd_dispatcher i (\<lambda>d. d\<lparr>tx_done := tx_done d - 1\<rparr>) ?s1"
  have w1: "wait_tx_done i ?s1 = Returns s2"
    by (simp add: wait_tx_done_def s2_def kthread_run_txthread_def txthread_begin_def
        complete_tx_done_def get_dispatcher_upd_gen gd)
  have g2: "map_option rx_done (get_dispatcher_by_id s2 i) = Some 0"
    using a
    by (simp add: s2_def kthread_run_txthread_def txthread_begin_def
        complete_tx_done_def get_dispatcher_upd_gen gd)
  then obtain d2 where d2: "get_dispatcher_by_id s2 i = Some d2" "rx_done d2 = 0"
    by (cases "get_dispatcher_by_id s2 i") simp_all
  show "xlink_dispatcher_start defs kt i (Some h) s = Blocks"
    unfolding start_allowed [OF gd st]
    using a
    by (simp add: w1 kthread_run_rxthread_def wait_rx_done_def get_dispatcher_upd_gen d2)
qed

text \<open>
  C3, as the code has it. For a link that has a dispatcher, \<open>xlink_dispatcher_start\<close>
  is rejected with \<open>X_LINK_ERROR\<close> and changes nothing when the state is \<open>RUNNING\<close> or
  \<open>ERROR\<close>. A call that returns \<open>X_LINK_SUCCESS\<close> started from \<open>INIT\<close> or from
  \<open>STOPPED\<close> and leaves the state \<open>RUNNING\<close>. And the call does succeed from either
  state: when \<open>kthread_run\<close> gives the TX and the RX thread, the pool of the link holds
  an event for the RX thread, and the thread of \<open>ipc_disp\<close> is given where it is asked
  for, the call returns \<open>X_LINK_SUCCESS\<close> with the state \<open>RUNNING\<close>, the two tasks in
  \<open>txthread\<close> and \<open>rxthread\<close>, and no thread stopped.
\<close>

theorem start_transitions:
  assumes gd: "get_dispatcher_by_id s i = Some disp"
  shows
    "(state disp = XLINK_DISPATCHER_RUNNING \<or> state disp = XLINK_DISPATCHER_ERROR \<longrightarrow>
        xlink_dispatcher_start defs kt i hdl s = Returns (X_LINK_ERROR, s)) \<and>
     (\<forall>s'. xlink_dispatcher_start defs kt i hdl s = Returns (X_LINK_SUCCESS, s') \<longrightarrow>
        (state disp = XLINK_DISPATCHER_INIT \<or> state disp = XLINK_DISPATCHER_STOPPED) \<and>
        map_option state (get_dispatcher_by_id s' i) = Some XLINK_DISPATCHER_RUNNING) \<and>
     ((state disp = XLINK_DISPATCHER_INIT \<or> state disp = XLINK_DISPATCHER_STOPPED) \<and>
      tx_run kt = Spawned t \<and> rx_run kt = Spawned r \<and>
      d_link_id disp = i \<and> head (buff_queue disp) \<noteq> [] \<and>
      (\<not> CONFIG_XLINK_LOCAL_HOST defs \<or> state (ipc_disp s) = XLINK_DISPATCHER_RUNNING \<or>
       ipc_run kt = Spawned u) \<longrightarrow>
        (\<exists>s'. xlink_dispatcher_start defs kt i (Some h) s = Returns (X_LINK_SUCCESS, s') \<and>
              map_option state (get_dispatcher_by_id s' i) = Some XLINK_DISPATCHER_RUNNING \<and>
              map_option txthread (get_dispatcher_by_id s' i) = Some (Task t) \<and>
              map_option rxthread (get_dispatcher_by_id s' i) = Some (Task r) \<and>
              new_calls s s' = []))"
proof (intro conjI impI allI)
  assume "state disp = XLINK_DISPATCHER_RUNNING \<or> state disp = XLINK_DISPATCHER_ERROR"
  then show "xlink_dispatcher_start defs kt i hdl s = Returns (X_LINK_ERROR, s)"
    by (rule start_rejected [OF gd])
next
  fix s'
  assume ok: "xlink_dispatcher_start defs kt i hdl s = Returns (X_LINK_SUCCESS, s')"
  from start_success_state [OF gd ok]
  show "state disp = XLINK_DISPATCHER_INIT \<or> state disp = XLINK_DISPATCHER_STOPPED"
    and "map_option state (get_dispatcher_by_id s' i) = Some XLINK_DISPATCHER_RUNNING"
    by simp_all
next
  assume a: "(state disp = XLINK_DISPATCHER_INIT \<or> state disp = XLINK_DISPATCHER_STOPPED) \<and>
      tx_run kt = Spawned t \<and> rx_run kt = Spawned r \<and>
      d_link_id disp = i \<and> head (buff_queue disp) \<noteq> [] \<and>
      (\<not> CONFIG_XLINK_LOCAL_HOST defs \<or> state (ipc_disp s) = XLINK_DISPATCHER_RUNNING \<or>
       ipc_run kt = Spawned u)"
  then obtain p ps where pool: "head (buff_queue disp) = p # ps"
    by (cases "head (buff_queue disp)") auto
  from a have ipc: "\<not> CONFIG_XLINK_LOCAL_HOST defs \<or>
      state (ipc_disp s) = XLINK_DISPATCHER_RUNNING \<or> (\<exists>u. ipc_run kt = Spawned u)"
    by blast
  from a have st: "state disp = XLINK_DISPATCHER_INIT \<or> state disp = XLINK_DISPATCHER_STOPPED"
    and tx: "tx_run kt = Spawned t" and rx: "rx_run kt = Spawned r" and lid: "d_link_id disp = i"
    by simp_all
  from start_succeeds [OF gd st tx rx lid pool ipc, where h = h]
  obtain s' where "xlink_dispatcher_start defs kt i (Some h) s = Returns (X_LINK_SUCCESS, s')"
    and "get_dispatcher_by_id s' i =
             Some (disp\<lparr>d_handle := Some h,
                        d_interface := get_interface_from_sw_device_id defs (sw_device_id h),
                        txthread := Task t, state := XLINK_DISPATCHER_RUNNING,
                        rxthread := Task r,
                        buff_queue := (buff_queue disp)\<lparr>head := ps,
                                                        count := count (buff_queue disp) - 1\<rparr>\<rparr>)"
    and "new_calls s s' = []"
    by blast
  then show "\<exists>s'. xlink_dispatcher_start defs kt i (Some h) s = Returns (X_LINK_SUCCESS, s') \<and>
              map_option state (get_dispatcher_by_id s' i) = Some XLINK_DISPATCHER_RUNNING \<and>
              map_option txthread (get_dispatcher_by_id s' i) = Some (Task t) \<and>
              map_option rxthread (get_dispatcher_by_id s' i) = Some (Task r) \<and>
              new_calls s s' = []"
    by simp
qed

lemma sample_dispatcher_fields:
  "state (sample_dispatcher l st es) = st"
  "d_link_id (sample_dispatcher l st es) = l"
  "head (buff_queue (sample_dispatcher l st es)) = es"
  "tx_done (sample_dispatcher l st es) = 0"
  "rx_done (sample_dispatcher l st es) = 0"
  by (simp_all add: sample_dispatcher_def sample_queue_def)

theorem start_transitions_witness:
  "xlink_dispatcher_start sample_defs spawn_ok 0 (Some sample_handle)
     (sample_sys XLINK_DISPATCHER_RUNNING) =
     Returns (X_LINK_ERROR, sample_sys XLINK_DISPATCHER_RUNNING) \<and>
   xlink_dispatcher_start sample_defs spawn_ok 0 (Some sample_handle)
     (sample_sys XLINK_DISPATCHER_ERROR) =
     Returns (X_LINK_ERROR, sample_sys XLINK_DISPATCHER_ERROR) \<and>
   map_option (\<lambda>r. (fst r, map_option state (get_dispatcher_by_id (snd r) 0),
                     map_option txthread (get_dispatcher_by_id (snd r) 0),
                     map_option rxthread (get_dispatcher_by_id (snd r) 0),
                     new_calls (sample_sys XLINK_DISPATCHER_INIT) (snd r)))
     (returned (xlink_dispatcher_start sample_defs spawn_ok 0 (Some sample_handle)
        (sample_sys XLINK_DISPATCHER_INIT))) =
     Some (X_LINK_SUCCESS, Some XLINK_DISPATCHER_RUNNING, Some (Task 21), Some (Task 22), [])"
proof -
  have gd: "get_dispatcher_by_id (sample_sys st) 0 = Some (sample_dispatcher 0 st [1, 2])" for st
    by simp
  have k: "tx_run spawn_ok = Spawned 21" "rx_run spawn_ok = Spawned 22"
    "\<not> CONFIG_XLINK_LOCAL_HOST sample_defs"
    by (simp_all add: spawn_ok_def sample_defs_def)
  have a: "xlink_dispatcher_start sample_defs spawn_ok 0 (Some sample_handle)
     (sample_sys XLINK_DISPATCHER_RUNNING) =
     Returns (X_LINK_ERROR, sample_sys XLINK_DISPATCHER_RUNNING)"
    using start_transitions [OF gd [of XLINK_DISPATCHER_RUNNING], where defs = sample_defs
        and kt = spawn_ok and hdl = "Some sample_handle"]
    by (simp add: sample_dispatcher_fields)
  have b: "xlink_dispatcher_start sample_defs spawn_ok 0 (Some sample_handle)
     (sample_sys XLINK_DISPATCHER_ERROR) =
     Returns (X_LINK_ERROR, sample_sys XLINK_DISPATCHER_ERROR)"
    using start_transitions [OF gd [of XLINK_DISPATCHER_ERROR], where defs = sample_defs
        and kt = spawn_ok and hdl = "Some sample_handle"]
    by (simp add: sample_dispatcher_fields)
  have "\<exists>s'. xlink_dispatcher_start sample_defs spawn_ok 0 (Some sample_handle)
        (sample_sys XLINK_DISPATCHER_INIT) = Returns (X_LINK_SUCCESS, s') \<and>
      map_option state (get_dispatcher_by_id s' 0) = Some XLINK_DISPATCHER_RUNNING \<and>
      map_option txthread (get_dispatcher_by_id s' 0) = Some (Task 21) \<and>
      map_option rxthread (get_dispatcher_by_id s' 0) = Some (Task 22) \<and>
      new_calls (sample_sys XLINK_DISPATCHER_INIT) s' = []"
    using start_transitions [OF gd [of XLINK_DISPATCHER_INIT], where defs = sample_defs
        and kt = spawn_ok and h = sample_handle and t = 21 and r = 22]
    by (simp add: sample_dispatcher_fields k)
  then have c: "map_option (\<lambda>r. (fst r, map_option state (get_dispatcher_by_id (snd r) 0),
                     map_option txthread (get_dispatcher_by_id (snd r) 0),
                     map_option rxthread (get_dispatcher_by_id (snd r) 0),
                     new_calls (sample_sys XLINK_DISPATCHER_INIT) (snd r)))
     (returned (xlink_dispatcher_start sample_defs spawn_ok 0 (Some sample_handle)
        (sample_sys XLINK_DISPATCHER_INIT))) =
     Some (X_LINK_SUCCESS, Some XLINK_DISPATCHER_RUNNING, Some (Task 21), Some (Task 22), [])"
    by auto
  from a b c show ?thesis by (intro conjI)
qed

text \<open>
  C3 as stated fails: a dispatcher in the state \<open>STOPPED\<close> is started with success and
  is \<open>RUNNING\<close> afterwards.
\<close>

theorem start_from_stopped_counterexample:
  "map_option state (get_dispatcher_by_id (sample_sys XLINK_DISPATCHER_STOPPED) 0) =
     Some XLINK_DISPATCHER_STOPPED \<and>
   map_option (\<lambda>r. (fst r, map_option state (get_dispatcher_by_id (snd r) 0)))
     (returned (xlink_dispatcher_start sample_defs spawn_ok 0 (Some sample_handle)
        (sample_sys XLINK_DISPATCHER_STOPPED))) =
     Some (X_LINK_SUCCESS, Some XLINK_DISPATCHER_RUNNING)"
proof -
  have gd: "get_dispatcher_by_id (sample_sys XLINK_DISPATCHER_STOPPED) 0 =
      Some (sample_dispatcher 0 XLINK_DISPATCHER_STOPPED [1, 2])"
    by simp
  have st: "state (sample_dispatcher 0 XLINK_DISPATCHER_STOPPED [1, 2]) = XLINK_DISPATCHER_INIT \<or>
      state (sample_dispatcher 0 XLINK_DISPATCHER_STOPPED [1, 2]) = XLINK_DISPATCHER_STOPPED"
    by (simp add: sample_dispatcher_fields)
  have tx: "tx_run spawn_ok = Spawned 21" and rx: "rx_run spawn_ok = Spawned 22"
    by (simp_all add: spawn_ok_def)
  have lid: "d_link_id (sample_dispatcher 0 XLINK_DISPATCHER_STOPPED [1, 2]) = 0"
    and pool: "head (buff_queue (sample_dispatcher 0 XLINK_DISPATCHER_STOPPED [1, 2])) = [1, 2]"
    by (simp_all add: sample_dispatcher_fields)
  have ipc: "\<not> CONFIG_XLINK_LOCAL_HOST sample_defs \<or>
      state (ipc_disp (sample_sys XLINK_DISPATCHER_STOPPED)) = XLINK_DISPATCHER_RUNNING \<or>
      (\<exists>u. ipc_run spawn_ok = Spawned u)"
    by (simp add: sample_defs_def)
  from start_succeeds [OF gd st tx rx lid pool ipc, of sample_handle]
  obtain s' where "xlink_dispatcher_start sample_defs spawn_ok 0 (Some sample_handle)
      (sample_sys XLINK_DISPATCHER_STOPPED) = Returns (X_LINK_SUCCESS, s')"
    and "map_option state (get_dispatcher_by_id s' 0) = Some XLINK_DISPATCHER_RUNNING"
    by auto
  then show ?thesis
    by (simp add: sample_dispatcher_fields)
qed


text \<open>
  The same wait when the RX thread is spawned and finds the pool of the link empty: it
  returns before its signal.
\<close>

lemma start_waits_on_empty_pool:
  assumes gd: "get_dispatcher_by_id s i = Some disp"
    and st: "state disp = XLINK_DISPATCHER_INIT \<or> state disp = XLINK_DISPATCHER_STOPPED"
    and tx: "tx_run kt = Spawned t" and rx: "rx_run kt = Spawned r"
    and lid: "d_link_id disp = i" and pool: "head (buff_queue disp) = []"
    and nosig: "rx_done disp = 0"
  shows "xlink_dispatcher_start defs kt i (Some h) s = Blocks"
proof -
  let ?d0 = "disp\<lparr>d_handle := Some h,
                   d_interface := get_interface_from_sw_device_id defs (sw_device_id h),
                   txthread := Task t\<rparr>"
  let ?s0 = "upd_dispatcher i
                  (\<lambda>d. d\<lparr>d_handle := Some h,
                         d_interface := get_interface_from_sw_device_id defs (sw_device_id h),
                         txthread := Task t\<rparr>) s"
  let ?s1 = "kthread_run_txthread (Spawned t) i ?s0"
  have g1: "get_dispatcher_by_id ?s1 i = Some (?d0\<lparr>tx_done := Suc (tx_done disp)\<rparr>)"
    by (simp add: kthread_run_txthread_def txthread_begin_def complete_tx_done_def
        get_dispatcher_upd_gen gd)
  define s2 where "s2 = upd_dispatcher i (\<lambda>d. d\<lparr>tx_done := tx_done d - 1\<rparr>) ?s1"
  have w1: "wait_tx_done i ?s1 = Returns s2"
    by (simp add: wait_tx_done_def g1 s2_def)
  have g2: "get_dispatcher_by_id s2 i = Some ?d0"
    by (simp add: s2_def get_dispatcher_upd_gen g1)
  let ?d2 = "?d0\<lparr>state := XLINK_DISPATCHER_RUNNING, rxthread := Task r\<rparr>"
  define s2' where "s2' = upd_dispatcher i
                    (\<lambda>d. d\<lparr>state := XLINK_DISPATCHER_RUNNING, rxthread := Task r\<rparr>) s2"
  have g2': "get_dispatcher_by_id s2' i = Some ?d2"
    by (simp add: s2'_def get_dispatcher_upd_gen g2)
  define s3 where "s3 = upd_dispatcher i (\<lambda>d. d\<lparr>buff_queue := buff_queue disp\<rparr>) s2'"
  have al: "alloc_event i s2' = (None, s3)"
    by (simp add: alloc_event_def g2' event_dequeue_buffer_def pool s3_def)
  have k: "kthread_run_rxthread defs (Spawned r) i s2' = Some s3"
    by (simp add: kthread_run_rxthread_def rxthread_begin_def g2' lid xlink_create_event_def al)
  have g3: "get_dispatcher_by_id s3 i = Some (?d2\<lparr>buff_queue := buff_queue disp\<rparr>)"
    by (simp add: s3_def get_dispatcher_upd_gen g2')
  have w2: "wait_rx_done i s3 = Blocks"
    by (simp add: wait_rx_done_def g3 nosig)
  show ?thesis
    unfolding start_allowed [OF gd st] tx rx
    by (simp add: w1 s2'_def [symmetric] k w2)
qed

lemma start_waits_sample:
  "xlink_dispatcher_start sample_defs spawn_tx_failed 0 (Some sample_handle)
     (sample_sys XLINK_DISPATCHER_INIT) = Blocks \<and>
   xlink_dispatcher_start sample_defs spawn_rx_failed 0 (Some sample_handle)
     (sample_sys XLINK_DISPATCHER_INIT) = Blocks"
proof -
  have gd: "get_dispatcher_by_id (sample_sys XLINK_DISPATCHER_INIT) 0 =
      Some (sample_dispatcher 0 XLINK_DISPATCHER_INIT [1, 2])"
    by simp
  have st: "state (sample_dispatcher 0 XLINK_DISPATCHER_INIT [1, 2]) = XLINK_DISPATCHER_INIT \<or>
      state (sample_dispatcher 0 XLINK_DISPATCHER_INIT [1, 2]) = XLINK_DISPATCHER_STOPPED"
    by (simp add: sample_dispatcher_fields)
  have k: "tx_run spawn_tx_failed = Spawn_failed (-12)" "tx_run spawn_rx_failed = Spawned 21"
    "rx_run spawn_rx_failed = Spawn_failed (-12)"
    by (simp_all add: spawn_tx_failed_def spawn_rx_failed_def)
  show ?thesis
    using start_waits_on_failed_spawn [OF gd st, where kt = spawn_tx_failed and e = "-12"
        and defs = sample_defs and h = sample_handle]
      start_waits_on_failed_spawn [OF gd st, where kt = spawn_rx_failed and e = "-12" and t = 21
        and defs = sample_defs and h = sample_handle]
    by (simp add: k sample_dispatcher_fields)
qed

end
